theory Spec2Isabelle
  imports Complex_Main "HOL-Library.Word"
begin

unbundle bit_operations_syntax

section \<open>Arrays\<close>

text \<open>
  A two-dimensional numpy array of shape \<open>[r, c]\<close> is a list of \<open>r\<close> rows of length
  \<open>c\<close>. The number of columns is kept beside the rows, as numpy keeps the shape beside
  the data: an array of shape \<open>[0, c]\<close> still knows \<open>c\<close>. Entries are real numbers:
  the arithmetic of the graph is read exactly, so rounding, overflow, infinities and
  NaN of 32-bit floats are outside this development.
\<close>

record array2d =
  ncols :: nat
  rows :: "real list list"

definition has_shape :: "array2d \<Rightarrow> nat \<Rightarrow> nat \<Rightarrow> bool" where
  "has_shape A r c =
     (length (rows A) = r \<and> ncols A = c \<and> list_all (\<lambda>row. length row = c) (rows A))"

text \<open>A numpy array object: its value and its \<open>flags.writeable\<close>.\<close>

record ndarray =
  arr :: array2d
  writeable :: bool

datatype error =
    AssertionError
  | AttributeError
  | ValueError
  | TypeError
  | IOError
  | IndexError
  | InvalidArgumentError

section \<open>Tensor operations of the graph\<close>

text \<open>
  A tensor of rank 1 is a \<open>real list\<close>, of rank 2 a list of rows, and so on.
  \<open>tf_reduce_sum_0 c t\<close> is \<open>tf.reduce_sum(t, 0)\<close> of a tensor of shape \<open>[r, c]\<close>;
  with no row the sum is the zero vector of length \<open>c\<close>.
\<close>

definition tf_neg :: "real list \<Rightarrow> real list" where
  "tf_neg v = map uminus v"

definition tf_square :: "real list \<Rightarrow> real list" where
  "tf_square v = map (\<lambda>x. x\<^sup>2) v"

definition tf_reduce_sum_0 :: "nat \<Rightarrow> real list list \<Rightarrow> real list" where
  "tf_reduce_sum_0 c t = foldr (map2 (+)) t (replicate c 0)"

definition tf_reduce_mean_0 :: "nat \<Rightarrow> real list list \<Rightarrow> real list" where
  "tf_reduce_mean_0 c t = map (\<lambda>s. s / real (length t)) (tf_reduce_sum_0 c t)"

text \<open>
  \<open>tf.reshape\<close> reads the elements in row-major order. \<open>reshape3 d0 d1 d2 flat\<close> is the
  tensor of shape \<open>[d0, d1, d2]\<close> over the row-major element list \<open>flat\<close>, and
  \<open>reshape4\<close> the one of shape \<open>[d0, d1, d2, d3]\<close>.
\<close>

definition reshape2 :: "nat \<Rightarrow> nat \<Rightarrow> real list \<Rightarrow> real list list" where
  "reshape2 d0 d1 flat = map (\<lambda>i. take d1 (drop (i * d1) flat)) [0..<d0]"

definition reshape3 :: "nat \<Rightarrow> nat \<Rightarrow> nat \<Rightarrow> real list \<Rightarrow> real list list list" where
  "reshape3 d0 d1 d2 flat = map (\<lambda>i. reshape2 d1 d2 (drop (i * (d1 * d2)) flat)) [0..<d0]"

definition reshape4 ::
  "nat \<Rightarrow> nat \<Rightarrow> nat \<Rightarrow> nat \<Rightarrow> real list \<Rightarrow> real list list list list" where
  "reshape4 d0 d1 d2 d3 flat =
     map (\<lambda>i. reshape3 d1 d2 d3 (drop (i * (d1 * d2 * d3)) flat)) [0..<d0]"

text \<open>
  The product of a matrix \<open>A\<close> of shape \<open>[i, c]\<close> with a matrix \<open>B\<close> of shape \<open>[c, n]\<close>,
  and \<open>tf.batch_matmul\<close> over two leading batch axes.
\<close>

definition matmul :: "nat \<Rightarrow> real list list \<Rightarrow> real list list \<Rightarrow> real list list" where
  "matmul n A B =
     map (\<lambda>row. map (\<lambda>k. sum_list (map2 (\<lambda>a b. a * b ! k) row B)) [0..<n]) A"

definition tf_batch_matmul ::
  "real list list list list \<Rightarrow> real list list list list \<Rightarrow> real list list list list" where
  "tf_batch_matmul A S = map2 (map2 (matmul 1)) A S"

section \<open>The energy expressions\<close>

subsection \<open>Funnel\<close>

text \<open>
  \<open>Funnel.build_energy_op\<close>. \<open>state_pl[0, :]\<close> is the first row, \<open>state_pl[1:, :]\<close>
  the remaining rows. The division of the \<open>[ndims - 1, b]\<close> tensor by the \<open>[b]\<close> tensor
  and the \<open>tf.add\<close> of the \<open>[b]\<close> tensor to the \<open>[ndims - 1, b]\<close> tensor broadcast the
  vector along the rows. The placeholder has \<open>ndims\<close> rows and a Funnel has at least
  one dimension, so the branch for no row is never taken on a fed batch. For
  \<open>scale = 0\<close> the graph divides by zero and yields infinities and NaN; every statement
  about the values of the energy assumes \<open>scale \<noteq> 0\<close>.
\<close>

definition Funnel_build_energy_op :: "real \<Rightarrow> array2d \<Rightarrow> error + real list" where
  "Funnel_build_energy_op scale state_pl =
     (case rows state_pl of
        [] \<Rightarrow> Inl ValueError
      | x_0 # x_k \<Rightarrow>
          (let e_x_0 = tf_neg (map (\<lambda>s. s / scale\<^sup>2) (tf_square x_0));
               e_x_k = map (\<lambda>row. tf_neg (map2 (/) (tf_square row) (map exp x_0))) x_k
           in Inr (tf_reduce_sum_0 (ncols state_pl) (map (\<lambda>row. map2 (+) e_x_0 row) e_x_k))))"

subsection \<open>Isotropic Gaussian\<close>

text \<open>
  \<open>TFGaussian.build_energy_op\<close>. The constructor does not check \<open>sigma\<close>. For
  \<open>sigma = 0\<close> the graph divides by zero and yields infinities and NaN, which the real
  numbers do not have: there the definition below, where division by zero gives \<open>0\<close>,
  says nothing about the code, and every statement about the values of the energy
  assumes \<open>sigma \<noteq> 0\<close>.
\<close>

definition TFGaussian_build_energy_op :: "real \<Rightarrow> array2d \<Rightarrow> error + real list" where
  "TFGaussian_build_energy_op sigma state_pl =
     Inr (map (\<lambda>s. s / (2 * sigma\<^sup>2))
            (tf_reduce_sum_0 (ncols state_pl) (map tf_square (rows state_pl))))"

subsection \<open>Sparse image code\<close>

text \<open>
  The attributes of a \<open>SparseImageCode\<close> object. \<open>patches\<close> is the tensor of shape
  \<open>[n_patches, 1, img_size]\<close> that \<open>build_energy_op\<close> stores.
\<close>

record sparse_image_code =
  lmbda :: rat
  imgs :: ndarray
  basis :: ndarray
  img_size :: nat
  n_coeffs :: nat
  n_patches :: nat
  cauchy :: bool
  patches :: "real list list list"

text \<open>
  \<open>self.imgs[:, :n_patches].T\<close>: the first \<open>n_patches\<close> columns of the images (fewer when
  there are fewer), one per row.
\<close>

definition select_patches :: "array2d \<Rightarrow> nat \<Rightarrow> real list list" where
  "select_patches im n = map (\<lambda>p. map (\<lambda>row. row ! p) (rows im)) [0..<min n (ncols im)]"

text \<open>
  The reshape of the patches to \<open>[n_patches, 1, img_size]\<close>, done when the graph is
  built: it fails unless the number of elements is \<open>n_patches * img_size\<close>.
\<close>

definition build_patches :: "array2d \<Rightarrow> nat \<Rightarrow> nat \<Rightarrow> error + real list list list" where
  "build_patches im n isz =
     (let flat = concat (select_patches im n)
      in if length flat = n * 1 * isz then Inr (reshape3 n 1 isz flat) else Inl ValueError)"

text \<open>
  \<open>SparseImageCode.build_energy_op\<close>, as the function of the fed batch that the graph
  computes. The reshape of the placeholder to \<open>[n_patches, -1, n_coeffs, 1]\<close> infers the
  second size from the number of elements, and fails when the known sizes multiply to 0
  or do not divide it. The tiled basis has \<open>nbatch\<close> copies per patch, cut to the first
  \<open>n_active\<close>; \<open>tf.batch_matmul\<close> needs as many as the reshaped state has. The patches
  of shape \<open>[n_patches, 1, img_size]\<close> are broadcast along the second axis.
\<close>

definition SparseImageCode_build_energy_op ::
  "nat \<Rightarrow> sparse_image_code \<Rightarrow> array2d \<Rightarrow> error + real list" where
  "SparseImageCode_build_energy_op nb s state_pl =
     (let n_active = ncols state_pl;
          total = length (rows state_pl) * n_active;
          known = n_patches s * n_coeffs s * 1
      in if known = 0 \<or> total mod known \<noteq> 0 then Inl InvalidArgumentError
         else
           (let m = total div known;
                shaped_state = reshape4 (n_patches s) m (n_coeffs s) 1 (concat (rows state_pl));
                full_tiled_basis_arr =
                  replicate (n_patches s) (replicate nb (rows (arr (basis s))));
                shaped_basis = map (take n_active) full_tiled_basis_arr
            in if min n_active nb \<noteq> m then Inl InvalidArgumentError
               else
                 (let reconstructions =
                        map (map (map (\<lambda>e. e ! 0))) (tf_batch_matmul shaped_basis shaped_state);
                      residual =
                        map2 (\<lambda>patch recs. map2 (map2 (-)) (concat (replicate m patch)) recs)
                          (patches s) reconstructions;
                      reconstruction_error =
                        tf_reduce_mean_0 m
                          (map (map (\<lambda>px. sum_list (map (\<lambda>d. 0.5 * d\<^sup>2) px))) residual);
                      sp_penalty =
                        (if cauchy s
                         then map (\<lambda>t. of_rat (lmbda s) * t)
                                (tf_reduce_sum_0 n_active
                                   (map (map (\<lambda>x. ln (1 + x\<^sup>2))) (rows state_pl)))
                         else map (\<lambda>t. of_rat (lmbda s) * t)
                                (tf_reduce_sum_0 n_active (map (map abs) (rows state_pl))))
                  in Inr (map2 (+) reconstruction_error sp_penalty))))"

section \<open>The distribution objects\<close>

datatype energy_model =
    Funnel (scale: rat)
  | TFGaussian (sigma: rat)
  | SparseImageCode sparse_image_code

record distribution =
  name :: string
  ndims :: nat
  nbatch :: nat
  grad_device :: string
  energy_device :: string
  device :: string
  prof_run :: bool
  model :: energy_model

text \<open>The energy expression of an object: the override of \<open>build_energy_op\<close> of its class.\<close>

definition energy_op :: "distribution \<Rightarrow> array2d \<Rightarrow> error + real list" where
  "energy_op d =
     (case model d of
        Funnel s \<Rightarrow> Funnel_build_energy_op (of_rat s)
      | TFGaussian s \<Rightarrow> TFGaussian_build_energy_op (of_rat s)
      | SparseImageCode s \<Rightarrow> SparseImageCode_build_energy_op (nbatch d) s)"

subsection \<open>The gradient expression\<close>

text \<open>
  \<open>tf.gradients(energy_op, state_pl)[0]\<close> is the tensor of the partial derivatives of the
  sum of the energies by the entries of the placeholder; it has the shape of the
  placeholder. \<open>partial g x\<close> is the derivative of \<open>g\<close> at \<open>x\<close>.
\<close>

definition partial :: "(real \<Rightarrow> real) \<Rightarrow> real \<Rightarrow> real" where
  "partial g x = (THE D. (g has_real_derivative D) (at x))"

definition put :: "array2d \<Rightarrow> nat \<Rightarrow> nat \<Rightarrow> real \<Rightarrow> array2d" where
  "put X i j h = X\<lparr>rows := (rows X)[i := (rows X ! i)[j := h]]\<rparr>"

definition energy_sum :: "(array2d \<Rightarrow> error + real list) \<Rightarrow> array2d \<Rightarrow> real" where
  "energy_sum ex X = (case ex X of Inl e \<Rightarrow> 0 | Inr v \<Rightarrow> sum_list v)"

definition tf_gradients :: "(array2d \<Rightarrow> error + real list) \<Rightarrow> array2d \<Rightarrow> error + array2d" where
  "tf_gradients ex X =
     (case ex X of
        Inl e \<Rightarrow> Inl e
      | Inr v \<Rightarrow>
          Inr \<lparr>ncols = ncols X,
               rows = map (\<lambda>i. map (\<lambda>j. partial (\<lambda>h. energy_sum ex (put X i j h)) (rows X ! i ! j))
                                [0..<ncols X])
                        [0..<length (rows X)]\<rparr>)"

definition grad_op :: "distribution \<Rightarrow> array2d \<Rightarrow> error + array2d" where
  "grad_op d = tf_gradients (energy_op d)"

subsection \<open>Construction\<close>

text \<open>
  The \<open>device\<close> argument: a string, a dictionary, or any other object.
\<close>

datatype device_spec =
    DeviceStr string
  | DeviceDict "string \<rightharpoonup> string"
  | DeviceOther

text \<open>
  \<open>TensorflowDistribution.__init__\<close>, lines 58 to 68: a dictionary must hold the keys
  \<open>grad\<close> and \<open>energy\<close> (each an \<open>assert\<close>); a string is both devices; for anything
  else no device is set and reading \<open>self.energy_device\<close> fails. The result is
  \<open>(grad_device, energy_device)\<close>.
\<close>

definition resolve_device :: "device_spec \<Rightarrow> error + string \<times> string" where
  "resolve_device dev =
     (case dev of
        DeviceDict m \<Rightarrow>
          (case m ''grad'' of
             None \<Rightarrow> Inl AssertionError
           | Some g \<Rightarrow>
               (case m ''energy'' of
                  None \<Rightarrow> Inl AssertionError
                | Some e \<Rightarrow> Inr (g, e)))
      | DeviceStr s \<Rightarrow> Inr (s, s)
      | DeviceOther \<Rightarrow> Inl AttributeError)"

text \<open>
  \<open>TensorflowDistribution.__init__\<close>: the devices are resolved, then the graph is built
  (\<open>built\<close> is the outcome of the class's \<open>build_energy_op\<close>).
\<close>

definition TensorflowDistribution_init ::
  "string \<Rightarrow> device_spec \<Rightarrow> bool \<Rightarrow> nat \<Rightarrow> nat \<Rightarrow> (error + energy_model) \<Rightarrow> error + distribution" where
  "TensorflowDistribution_init nm dev prof nd nb built =
     (case resolve_device dev of
        Inl e \<Rightarrow> Inl e
      | Inr (g, e) \<Rightarrow>
          (case built of
             Inl err \<Rightarrow> Inl err
           | Inr sub \<Rightarrow>
               Inr \<lparr>name = nm, ndims = nd, nbatch = nb, grad_device = g, energy_device = e,
                    device = e, prof_run = prof, model = sub\<rparr>))"

text \<open>
  \<open>Funnel.__init__\<close>. \<open>gen_init_X\<close> runs first: numpy refuses a negative scale and a
  negative size, here \<open>(1, nbatch)\<close> and \<open>(ndims - 1, nbatch)\<close>.
\<close>

definition Funnel_init :: "rat \<Rightarrow> int \<Rightarrow> int \<Rightarrow> device_spec \<Rightarrow> bool \<Rightarrow> error + distribution" where
  "Funnel_init sc nb nd dev prof =
     (if sc < 0 \<or> nb < 0 \<or> nd - 1 < 0 then Inl ValueError
      else TensorflowDistribution_init ''Funnel'' dev prof (nat nd) (nat nb) (Inr (Funnel sc)))"

text \<open>\<open>TFGaussian.__init__\<close>; \<open>gen_init_X\<close> draws an array of shape \<open>(ndims, nbatch)\<close>.\<close>

definition TFGaussian_init :: "int \<Rightarrow> int \<Rightarrow> rat \<Rightarrow> device_spec \<Rightarrow> bool \<Rightarrow> error + distribution" where
  "TFGaussian_init nd nb sg dev prof =
     (if nd < 0 \<or> nb < 0 then Inl ValueError
      else TensorflowDistribution_init ''TFGaussian'' dev prof (nat nd) (nat nb) (Inr (TFGaussian sg)))"

text \<open>
  \<open>SparseImageCode.__init__\<close>. \<open>dump n\<close> is the content of the data file for \<open>n\<close> basis
  functions, the pair of \<open>data\<close> and \<open>basis\<close>, and \<open>None\<close> when the file cannot be read.
\<close>

definition SparseImageCode_init ::
  "(nat \<rightharpoonup> ndarray \<times> ndarray) \<Rightarrow> nat \<Rightarrow> nat \<Rightarrow> bool \<Rightarrow> nat \<Rightarrow> device_spec \<Rightarrow> bool
     \<Rightarrow> error + distribution" where
  "SparseImageCode_init dump np nbt cau n_basis dev prof =
     (if n_basis \<noteq> 1024 \<and> n_basis \<noteq> 512 then Inl AssertionError
      else
        (case dump n_basis of
           None \<Rightarrow> Inl IOError
         | Some (im, ba) \<Rightarrow>
             (let isz = length (rows (arr ba)); nc = ncols (arr ba)
              in TensorflowDistribution_init ''SparseImageCode'' dev prof (np * nc) nbt
                   (case build_patches (arr im) np isz of
                      Inl e \<Rightarrow> Inl e
                    | Inr pt \<Rightarrow>
                        Inr (SparseImageCode
                               \<lparr>lmbda = 1 / 100, imgs = im, basis = ba, img_size = isz,
                                n_coeffs = nc, n_patches = np, cauchy = cau, patches = pt\<rparr>)))))"

text \<open>The constructor calls for the three classes, and the object a call yields.\<close>

datatype model_args =
    FunnelArgs rat int int
  | TFGaussianArgs int int rat
  | SparseImageCodeArgs nat nat bool nat

definition construct ::
  "(nat \<rightharpoonup> ndarray \<times> ndarray) \<Rightarrow> model_args \<Rightarrow> device_spec \<Rightarrow> bool \<Rightarrow> error + distribution" where
  "construct dump args dev prof =
     (case args of
        FunnelArgs sc nb nd \<Rightarrow> Funnel_init sc nb nd dev prof
      | TFGaussianArgs nd nb sg \<Rightarrow> TFGaussian_init nd nb sg dev prof
      | SparseImageCodeArgs np nbt cau n_basis \<Rightarrow>
          SparseImageCode_init dump np nbt cau n_basis dev prof)"

section \<open>Evaluation\<close>

text \<open>
  What an evaluation touches outside the object: the home directory, the directories
  that exist and can be written to, the files, the text that formatting \<open>time.time()\<close>
  gives at the call, and the timeline text the runtime produces for the traced run.
\<close>

record world =
  home :: string
  dirs :: "string set"
  files :: "string \<rightharpoonup> string"
  time_text :: string
  trace_text :: string

definition log_dir :: "world \<Rightarrow> string" where
  "log_dir w = home w @ ''/tmp/logs/''"

definition write_file :: "world \<Rightarrow> string \<Rightarrow> string \<Rightarrow> string \<Rightarrow> error + world" where
  "write_file w dir fname txt =
     (if dir \<in> dirs w then Inr (w\<lparr>files := (files w)(dir @ fname \<mapsto> txt)\<rparr>) else Inl IOError)"

text \<open>
  \<open>sess.run(op, feed_dict={state_pl: X})\<close>: the placeholder has shape \<open>[ndims, None]\<close>, so a
  batch with another number of rows is refused; then the expression is computed.
\<close>

definition sess_run :: "distribution \<Rightarrow> (array2d \<Rightarrow> error + 'a) \<Rightarrow> array2d \<Rightarrow> error + 'a" where
  "sess_run d ex X = (if length (rows X) = ndims d then ex X else Inl ValueError)"

definition E_val :: "distribution \<Rightarrow> world \<Rightarrow> array2d \<Rightarrow> error + real list \<times> world" where
  "E_val d w X =
     (if prof_run d
      then (case sess_run d (energy_op d) X of
              Inl e \<Rightarrow> Inl e
            | Inr energy \<Rightarrow>
                (case write_file w (log_dir w)
                        (''tf_'' @ name d @ ''_energy_timeline_'' @ time_text w @ ''.json'')
                        (trace_text w) of
                   Inl e \<Rightarrow> Inl e
                 | Inr w' \<Rightarrow> Inr (energy, w')))
      else (case sess_run d (energy_op d) X of
              Inl e \<Rightarrow> Inl e
            | Inr energy \<Rightarrow> Inr (energy, w)))"

definition dEdX_val :: "distribution \<Rightarrow> world \<Rightarrow> array2d \<Rightarrow> error + array2d \<times> world" where
  "dEdX_val d w X =
     (if prof_run d
      then (case sess_run d (grad_op d) X of
              Inl e \<Rightarrow> Inl e
            | Inr grad \<Rightarrow>
                (case write_file w (log_dir w)
                        (''tf_'' @ name d @ ''_grad_timeline_'' @ time_text w @ ''.json'')
                        (trace_text w) of
                   Inl e \<Rightarrow> Inl e
                 | Inr w' \<Rightarrow> Inr (grad, w')))
      else (case sess_run d (grad_op d) X of
              Inl e \<Rightarrow> Inl e
            | Inr grad \<Rightarrow> Inr (grad, w)))"

text \<open>An evaluation can write its trace: tracing is off, or the log directory is there.\<close>

definition can_log :: "distribution \<Rightarrow> world \<Rightarrow> bool" where
  "can_log d w = (if prof_run d then log_dir w \<in> dirs w else True)"

text \<open>
  A sparse image code over no patch or with no coefficient has \<open>ndims = 0\<close>; the reshape
  of its placeholder cannot infer the batch size, and its evaluation fails.
\<close>

definition no_coefficients :: "distribution \<Rightarrow> bool" where
  "no_coefficients d =
     (case model d of
        SparseImageCode s \<Rightarrow> ndims d = 0
      | Funnel sc \<Rightarrow> False
      | TFGaussian sg \<Rightarrow> False)"

section \<open>Hashing\<close>

text \<open>
  The built-in \<open>hash\<close> of a number, as CPython 3 computes it on a 64-bit build: the
  number \<open>m / n\<close> in lowest terms is reduced modulo the prime \<open>2 ^ 61 - 1\<close>, with
  the inverse of \<open>n\<close> as a power, the sign is kept, and \<open>-1\<close> is never a hash: \<open>-2\<close>
  stands for it. An integer and the float equal to it have the same hash. (CPython 2
  gives the same hash to an integral number of magnitude below \<open>2 ^ 61 - 1\<close>.) A Python
  float is read as the rational number it stands for.
\<close>

definition hash_modulus :: int where
  "hash_modulus = 2 ^ 61 - 1"

definition hash_number :: "rat \<Rightarrow> int" where
  "hash_number x =
     (let (m, n) = quotient_of x;
          h = (if n mod hash_modulus = 0 then 314159
               else (\<bar>m\<bar> mod hash_modulus) * (n ^ nat (hash_modulus - 2) mod hash_modulus)
                      mod hash_modulus);
          hs = (if m < 0 then - h else h)
      in if hs = - 1 then - 2 else hs)"

definition hash_int :: "int \<Rightarrow> int" where
  "hash_int i = hash_number (of_int i)"

text \<open>
  The hash of a tuple, over the hashes \<open>y\<close> of its items, in 64-bit arithmetic: the
  loop of CPython's \<open>tuplehash\<close>, where the multiplier grows by \<open>82520\<close> plus twice the
  number of items still to come.
\<close>

fun tuplehash_loop :: "64 word \<Rightarrow> 64 word \<Rightarrow> int list \<Rightarrow> 64 word" where
  "tuplehash_loop x mult [] = x"
| "tuplehash_loop x mult (y # ys) =
     tuplehash_loop ((x XOR word_of_int y) * mult)
       (mult + word_of_int (82520 + 2 * int (length ys))) ys"

definition tuplehash :: "int list \<Rightarrow> int" where
  "tuplehash ys =
     (let x = tuplehash_loop 0x345678 1000003 ys + 97531
      in sint (if x = - 1 then - 2 else x))"

text \<open>\<open>Funnel.__hash__\<close>: \<open>hash((self.scale, self.ndims))\<close>.\<close>

definition Funnel_hash :: "distribution \<Rightarrow> int" where
  "Funnel_hash d = tuplehash [hash_number (scale (model d)), hash_int (int (ndims d))]"

text \<open>\<open>TFGaussian.__hash__\<close>: \<open>hash((self.ndims, self.sigma))\<close>.\<close>

definition TFGaussian_hash :: "distribution \<Rightarrow> int" where
  "TFGaussian_hash d = tuplehash [hash_int (int (ndims d)), hash_number (sigma (model d))]"

text \<open>
  The hash of \<open>a.data\<close>, the buffer over the memory of the array \<open>a\<close>: a writable buffer
  cannot be hashed; for a read-only one the outcome \<open>bh\<close> is a function of the content,
  a hash value or the refusal of the runtime (Python 2 hashes the bytes of any read-only
  buffer, Python 3 only those of a buffer of bytes). The layout of the content in memory
  is not modelled, so \<open>bh\<close> is a parameter.
\<close>

definition hash_buffer :: "(array2d \<Rightarrow> error + int) \<Rightarrow> ndarray \<Rightarrow> error + int" where
  "hash_buffer bh a = (if writeable a then Inl TypeError else bh (arr a))"

text \<open>
  \<open>SparseImageCode.__hash__\<close>. The two assignments to \<open>flags.writeable\<close> change the
  object, so the function returns the object beside the hash.
\<close>

definition SparseImageCode_hash ::
  "(array2d \<Rightarrow> error + int) \<Rightarrow> sparse_image_code \<Rightarrow> (error + int) \<times> sparse_image_code"
  where
  "SparseImageCode_hash bh s =
     (let s1 = s\<lparr>imgs := (imgs s)\<lparr>writeable := False\<rparr>\<rparr>;
          s2 = s1\<lparr>basis := (basis s1)\<lparr>writeable := False\<rparr>\<rparr>
      in (case hash_buffer bh (imgs s2) of
            Inl e \<Rightarrow> (Inl e, s2)
          | Inr h_imgs \<Rightarrow>
              (case hash_buffer bh (basis s2) of
                 Inl e \<Rightarrow> (Inl e, s2)
               | Inr h_basis \<Rightarrow>
                   (Inr (tuplehash
                           [hash_int h_imgs,
                            hash_int h_basis,
                            hash_int (hash_number (lmbda s2)),
                            hash_int (hash_int (int (n_patches s2))),
                            hash_int (int (n_coeffs s2))]),
                    s2))))"

text \<open>\<open>hash(obj)\<close> for an object of one of the three classes.\<close>

definition py_hash ::
  "(array2d \<Rightarrow> error + int) \<Rightarrow> distribution \<Rightarrow> (error + int) \<times> distribution" where
  "py_hash bh d =
     (case model d of
        Funnel sc \<Rightarrow> (Inr (Funnel_hash d), d)
      | TFGaussian sg \<Rightarrow> (Inr (TFGaussian_hash d), d)
      | SparseImageCode s \<Rightarrow>
          (let (h, s') = SparseImageCode_hash bh s in (h, d\<lparr>model := SparseImageCode s'\<rparr>)))"

text \<open>
  numpy's assignment \<open>a[i, j] = v\<close>: refused on an array that is not writeable, before
  the index is looked at.
\<close>

definition ndarray_setitem :: "ndarray \<Rightarrow> nat \<Rightarrow> nat \<Rightarrow> real \<Rightarrow> error + ndarray" where
  "ndarray_setitem a i j v =
     (if \<not> writeable a then Inl ValueError
      else if i < length (rows (arr a)) \<and> j < ncols (arr a)
        then Inr (a\<lparr>arr := put (arr a) i j v\<rparr>)
        else Inl IndexError)"

section \<open>Example objects\<close>

text \<open>Concrete worlds, data files and batches, at which the theorems below are applied.\<close>

definition example_world :: world where
  "example_world =
     \<lparr>home = ''/home/user'', dirs = {''/home/user/tmp/logs/''}, files = Map.empty,
      time_text = ''1478264400.0'', trace_text = ''{}''\<rparr>"

definition no_dump :: "nat \<rightharpoonup> ndarray \<times> ndarray" where
  "no_dump = (\<lambda>n. None)"

definition example_gaussian :: distribution where
  "example_gaussian =
     \<lparr>name = ''TFGaussian'', ndims = 2, nbatch = 100, grad_device = ''/cpu:0'',
      energy_device = ''/cpu:0'', device = ''/cpu:0'', prof_run = False, model = TFGaussian 1\<rparr>"

definition example_funnel :: distribution where
  "example_funnel =
     \<lparr>name = ''Funnel'', ndims = 3, nbatch = 50, grad_device = ''/cpu:0'',
      energy_device = ''/cpu:0'', device = ''/cpu:0'', prof_run = False, model = Funnel 1\<rparr>"

text \<open>
  What the specification states for the Funnel: the energy of column \<open>j\<close> is
  \<open>-(x0\<^sup>2 / scale\<^sup>2) - sum_k (x_k\<^sup>2 / exp x0)\<close>, for \<open>k\<close> from \<open>1\<close> to \<open>ndims - 1\<close>.
\<close>

definition Funnel_energy_stated :: "real \<Rightarrow> array2d \<Rightarrow> nat \<Rightarrow> real" where
  "Funnel_energy_stated sc X j =
     - ((rows X ! 0 ! j)\<^sup>2 / sc\<^sup>2)
     - (\<Sum>k = 1..<length (rows X). (rows X ! k ! j)\<^sup>2 / exp (rows X ! 0 ! j))"



text \<open>
  A small data file: two images of two pixels, and a basis of two functions over two
  pixels (the identity matrix). One patch is selected, the image \<open>[2, 1]\<close>.
\<close>

definition example_imgs :: ndarray where
  "example_imgs = \<lparr>arr = \<lparr>ncols = 2, rows = [[2, 5], [1, 7]]\<rparr>, writeable = True\<rparr>"

definition example_basis :: ndarray where
  "example_basis = \<lparr>arr = \<lparr>ncols = 2, rows = [[1, 0], [0, 1]]\<rparr>, writeable = True\<rparr>"

definition example_dump :: "nat \<rightharpoonup> ndarray \<times> ndarray" where
  "example_dump = (\<lambda>n. if n = 1024 then Some (example_imgs, example_basis) else None)"

definition example_code :: "bool \<Rightarrow> sparse_image_code" where
  "example_code cau =
     \<lparr>lmbda = 1 / 100, imgs = example_imgs, basis = example_basis, img_size = 2,
      n_coeffs = 2, n_patches = 1, cauchy = cau, patches = [[[2, 1]]]\<rparr>"

definition example_sparse :: "bool \<Rightarrow> distribution" where
  "example_sparse cau =
     \<lparr>name = ''SparseImageCode'', ndims = 2, nbatch = 2, grad_device = ''/cpu:0'',
      energy_device = ''/cpu:0'', device = ''/cpu:0'', prof_run = False,
      model = SparseImageCode (example_code cau)\<rparr>"

text \<open>
  What the specification states for the energy of an all-zero column under the Laplace
  penalty: one half of the mean, over the selected patches, of the sum of the squared
  pixels of the patch.
\<close>

definition zero_column_energy_stated :: "sparse_image_code \<Rightarrow> real" where
  "zero_column_energy_stated s =
     (1 / 2) * (sum_list (map (\<lambda>patch. sum_list (map (\<lambda>x. x\<^sup>2) patch))
                             (select_patches (arr (imgs s)) (n_patches s)))
                / real (n_patches s))"

text \<open>A Gaussian whose gradient runs on another device than its energy.\<close>

definition gaussian_split :: distribution where
  "gaussian_split =
     \<lparr>name = ''TFGaussian'', ndims = 2, nbatch = 100, grad_device = ''/gpu:0'',
      energy_device = ''/cpu:0'', device = ''/cpu:0'', prof_run = False, model = TFGaussian 1\<rparr>"

definition example_gaussian_traced :: distribution where
  "example_gaussian_traced = example_gaussian\<lparr>prof_run := True\<rparr>"



text \<open>A hash of buffers, for the examples: it reads the content.\<close>

definition example_buffer_hash :: "array2d \<Rightarrow> error + int" where
  "example_buffer_hash a = Inr \<lfloor>sum_list (concat (rows a))\<rfloor>"

section \<open>Properties\<close>

subsection \<open>Shapes and sums\<close>

lemma length_tf_reduce_sum_0:
  "list_all (\<lambda>row. length row = c) t \<Longrightarrow> length (tf_reduce_sum_0 c t) = c"
  unfolding tf_reduce_sum_0_def by (induction t) auto

lemma tf_reduce_sum_0_nth:
  "list_all (\<lambda>row. length row = c) t \<Longrightarrow>
   tf_reduce_sum_0 c t = map (\<lambda>j. sum_list (map (\<lambda>row. row ! j) t)) [0..<c]"
proof (induction t)
  case Nil
  show ?case
    by (simp add: tf_reduce_sum_0_def map_replicate_const)
next
  case (Cons r t)
  then have len: "length r = c" and rest: "list_all (\<lambda>row. length row = c) t"
    by simp_all
  have "tf_reduce_sum_0 c (r # t) = map2 (+) r (tf_reduce_sum_0 c t)"
    by (simp add: tf_reduce_sum_0_def)
  also have "\<dots> = map2 (+) r (map (\<lambda>j. sum_list (map (\<lambda>row. row ! j) t)) [0..<c])"
    using Cons.IH rest by simp
  also have "\<dots> = map (\<lambda>j. sum_list (map (\<lambda>row. row ! j) (r # t))) [0..<c]"
    using len by (intro nth_equalityI) simp_all
  finally show ?case .
qed

subsection \<open>Evaluation returns the value of the expression\<close>

lemma E_val_value:
  assumes "length (rows X) = ndims d" "energy_op d X = Inr v" "can_log d w"
  shows "\<exists>w'. E_val d w X = Inr (v, w')"
  using assms by (auto simp: E_val_def sess_run_def can_log_def write_file_def)

lemma dEdX_val_value:
  assumes "length (rows X) = ndims d" "grad_op d X = Inr g" "can_log d w"
  shows "\<exists>w'. dEdX_val d w X = Inr (g, w')"
  using assms by (auto simp: dEdX_val_def sess_run_def can_log_def write_file_def)

subsection \<open>What the constructors build\<close>

lemma TensorflowDistribution_init_fields:
  assumes "TensorflowDistribution_init nm dev prof nd nb built = Inr d"
  shows "name d = nm \<and> ndims d = nd \<and> nbatch d = nb \<and> prof_run d = prof \<and> built = Inr (model d)
         \<and> resolve_device dev = Inr (grad_device d, energy_device d) \<and> device d = energy_device d"
  using assms
  by (auto simp: TensorflowDistribution_init_def split: sum.splits prod.splits)

lemma TFGaussian_init_fields:
  assumes "TFGaussian_init nd nb sg dev prof = Inr d"
  shows "ndims d = nat nd \<and> nbatch d = nat nb \<and> model d = TFGaussian sg \<and> prof_run d = prof
         \<and> name d = ''TFGaussian''"
  using assms TensorflowDistribution_init_fields
  by (fastforce simp: TFGaussian_init_def split: if_splits)

lemma Funnel_init_fields:
  assumes "Funnel_init sc nb nd dev prof = Inr d"
  shows "ndims d = nat nd \<and> nbatch d = nat nb \<and> model d = Funnel sc \<and> prof_run d = prof
         \<and> name d = ''Funnel'' \<and> 1 \<le> nd \<and> 0 \<le> sc"
  using assms TensorflowDistribution_init_fields
  by (fastforce simp: Funnel_init_def split: if_splits)

lemma SparseImageCode_init_fields:
  assumes "SparseImageCode_init dump np nbt cau nbs dev prof = Inr d"
  shows "\<exists>im ba pt. dump nbs = Some (im, ba)
      \<and> build_patches (arr im) np (length (rows (arr ba))) = Inr pt
      \<and> model d = SparseImageCode
            \<lparr>lmbda = 1 / 100, imgs = im, basis = ba, img_size = length (rows (arr ba)),
             n_coeffs = ncols (arr ba), n_patches = np, cauchy = cau, patches = pt\<rparr>
      \<and> ndims d = np * ncols (arr ba) \<and> nbatch d = nbt \<and> prof_run d = prof
      \<and> name d = ''SparseImageCode''
      \<and> resolve_device dev = Inr (grad_device d, energy_device d) \<and> device d = energy_device d"
proof -
  from assms obtain im ba where du: "dump nbs = Some (im, ba)"
    by (auto simp: SparseImageCode_init_def split: if_splits option.splits)
  let ?built = "case build_patches (arr im) np (length (rows (arr ba))) of
                  Inl e \<Rightarrow> Inl e
                | Inr pt \<Rightarrow>
                    Inr (SparseImageCode
                           \<lparr>lmbda = 1 / 100, imgs = im, basis = ba,
                            img_size = length (rows (arr ba)), n_coeffs = ncols (arr ba),
                            n_patches = np, cauchy = cau, patches = pt\<rparr>)"
  from assms du have t: "TensorflowDistribution_init ''SparseImageCode'' dev prof
       (np * ncols (arr ba)) nbt ?built = Inr d"
    by (simp add: SparseImageCode_init_def Let_def split: if_splits)
  note f = TensorflowDistribution_init_fields[OF t]
  from f have b: "?built = Inr (model d)"
    by simp
  then obtain pt where pt: "build_patches (arr im) np (length (rows (arr ba))) = Inr pt"
    by (cases "build_patches (arr im) np (length (rows (arr ba)))") simp_all
  with b have "model d = SparseImageCode
            \<lparr>lmbda = 1 / 100, imgs = im, basis = ba, img_size = length (rows (arr ba)),
             n_coeffs = ncols (arr ba), n_patches = np, cauchy = cau, patches = pt\<rparr>"
    by simp
  with du pt f show ?thesis
    by simp
qed

text \<open>
  Every constructor runs the checks of its class, which do not look at the device or at
  the tracing flag, and then the constructor of the base class.
\<close>

lemma construct_factors:
  "\<exists>pre nm nd nb built. \<forall>dev prof.
      construct dump args dev prof =
        (case pre of
           Some e \<Rightarrow> Inl e
         | None \<Rightarrow> TensorflowDistribution_init nm dev prof nd nb built)"
proof (cases args)
  case (FunnelArgs sc nb nd)
  show ?thesis
  proof (cases "sc < 0 \<or> nb < 0 \<or> nd - 1 < 0")
    case True
    then have "\<forall>dev prof. construct dump args dev prof =
        (case Some ValueError of
           Some e \<Rightarrow> Inl e
         | None \<Rightarrow> TensorflowDistribution_init [] dev prof 0 0 (Inl ValueError))"
      by (simp add: construct_def FunnelArgs Funnel_init_def)
    then show ?thesis
      by blast
  next
    case False
    then have "\<forall>dev prof. construct dump args dev prof =
        (case None of
           Some e \<Rightarrow> Inl e
         | None \<Rightarrow> TensorflowDistribution_init ''Funnel'' dev prof (nat nd) (nat nb)
                     (Inr (Funnel sc)))"
      by (simp add: construct_def FunnelArgs Funnel_init_def)
    then show ?thesis
      by blast
  qed
next
  case (TFGaussianArgs nd nb sg)
  show ?thesis
  proof (cases "nd < 0 \<or> nb < 0")
    case True
    then have "\<forall>dev prof. construct dump args dev prof =
        (case Some ValueError of
           Some e \<Rightarrow> Inl e
         | None \<Rightarrow> TensorflowDistribution_init [] dev prof 0 0 (Inl ValueError))"
      by (simp add: construct_def TFGaussianArgs TFGaussian_init_def)
    then show ?thesis
      by blast
  next
    case False
    then have "\<forall>dev prof. construct dump args dev prof =
        (case None of
           Some e \<Rightarrow> Inl e
         | None \<Rightarrow> TensorflowDistribution_init ''TFGaussian'' dev prof (nat nd) (nat nb)
                     (Inr (TFGaussian sg)))"
      by (simp add: construct_def TFGaussianArgs TFGaussian_init_def)
    then show ?thesis
      by blast
  qed
next
  case (SparseImageCodeArgs np nbt cau nbs)
  show ?thesis
  proof (cases "nbs \<noteq> 1024 \<and> nbs \<noteq> 512")
    case True
    then have "\<forall>dev prof. construct dump args dev prof =
        (case Some AssertionError of
           Some e \<Rightarrow> Inl e
         | None \<Rightarrow> TensorflowDistribution_init [] dev prof 0 0 (Inl ValueError))"
      by (simp add: construct_def SparseImageCodeArgs SparseImageCode_init_def)
    then show ?thesis
      by blast
  next
    case ok: False
    show ?thesis
    proof (cases "dump nbs")
      case None
      with ok have "\<forall>dev prof. construct dump args dev prof =
          (case Some IOError of
             Some e \<Rightarrow> Inl e
           | None \<Rightarrow> TensorflowDistribution_init [] dev prof 0 0 (Inl ValueError))"
        by (simp add: construct_def SparseImageCodeArgs SparseImageCode_init_def)
      then show ?thesis
        by blast
    next
      case (Some pr)
      obtain im ba where pr: "pr = (im, ba)"
        by (cases pr)
      from ok Some pr have "\<forall>dev prof. construct dump args dev prof =
          (case None of
             Some e \<Rightarrow> Inl e
           | None \<Rightarrow> TensorflowDistribution_init ''SparseImageCode'' dev prof
                 (np * ncols (arr ba)) nbt
                 (case build_patches (arr im) np (length (rows (arr ba))) of
                    Inl e \<Rightarrow> Inl e
                  | Inr pt \<Rightarrow>
                      Inr (SparseImageCode
                             \<lparr>lmbda = 1 / 100, imgs = im, basis = ba,
                              img_size = length (rows (arr ba)), n_coeffs = ncols (arr ba),
                              n_patches = np, cauchy = cau, patches = pt\<rparr>)))"
        by (auto simp add: construct_def SparseImageCodeArgs SparseImageCode_init_def Let_def)
      then show ?thesis
        by blast
    qed
  qed
qed

subsection \<open>Devices\<close>

lemma construct_same_devices:
  assumes "resolve_device dev = resolve_device dev'"
  shows "construct dump args dev prof = construct dump args dev' prof"
proof -
  obtain pre nm nd nb built where
    f: "\<And>dv pf. construct dump args dv pf =
        (case pre of Some e \<Rightarrow> Inl e | None \<Rightarrow> TensorflowDistribution_init nm dv pf nd nb built)"
    using construct_factors[of dump args] by blast
  show ?thesis
    using assms by (simp add: f TensorflowDistribution_init_def split: option.splits)
qed

lemma construct_devices:
  assumes "construct dump args dev prof = Inr d"
  shows "resolve_device dev = Inr (grad_device d, energy_device d)"
proof -
  obtain pre nm nd nb built where
    f: "\<And>dv pf. construct dump args dv pf =
        (case pre of Some e \<Rightarrow> Inl e | None \<Rightarrow> TensorflowDistribution_init nm dv pf nd nb built)"
    using construct_factors[of dump args] by blast
  from assms have "TensorflowDistribution_init nm dev prof nd nb built = Inr d"
    by (simp add: f split: option.splits)
  then show ?thesis
    using TensorflowDistribution_init_fields by blast
qed

lemma construct_device_error:
  assumes "construct dump args dev0 prof = Inr d0" and "resolve_device dev = Inl e"
  shows "construct dump args dev prof = Inl e"
proof -
  obtain pre nm nd nb built where
    f: "\<And>dv pf. construct dump args dv pf =
        (case pre of Some e \<Rightarrow> Inl e | None \<Rightarrow> TensorflowDistribution_init nm dv pf nd nb built)"
    using construct_factors[of dump args] by blast
  from assms(1) have "pre = None"
    by (simp add: f split: option.splits)
  then show ?thesis
    using assms(2) by (simp add: f TensorflowDistribution_init_def)
qed

lemma construct_fails_on_device_error:
  assumes "resolve_device dev = Inl e"
  shows "\<exists>e'. construct dump args dev prof = Inl e'"
proof -
  obtain pre nm nd nb built where
    f: "\<And>dv pf. construct dump args dv pf =
        (case pre of Some e \<Rightarrow> Inl e | None \<Rightarrow> TensorflowDistribution_init nm dv pf nd nb built)"
    using construct_factors[of dump args] by blast
  show ?thesis
    using assms by (simp add: f TensorflowDistribution_init_def split: option.splits)
qed

lemma construct_prof_run:
  assumes "construct dump args dev prof = Inr d"
  shows "construct dump args dev prof' = Inr (d\<lparr>prof_run := prof'\<rparr>) \<and> prof_run d = prof"
proof -
  obtain pre nm nd nb built where
    f: "\<And>dv pf. construct dump args dv pf =
        (case pre of Some e \<Rightarrow> Inl e | None \<Rightarrow> TensorflowDistribution_init nm dv pf nd nb built)"
    using construct_factors[of dump args] by blast
  from assms have "TensorflowDistribution_init nm dev prof nd nb built = Inr d" and "pre = None"
    by (simp_all add: f split: option.splits)
  then show ?thesis
    by (auto simp: f TensorflowDistribution_init_def split: sum.splits prod.splits)
qed

lemma resolve_device_dict_missing:
  "m ''grad'' = None \<or> m ''energy'' = None \<Longrightarrow> resolve_device (DeviceDict m) = Inl AssertionError"
  by (auto simp: resolve_device_def split: option.splits)

lemma resolve_device_dict_both:
  "m ''grad'' = Some g \<Longrightarrow> m ''energy'' = Some e \<Longrightarrow> resolve_device (DeviceDict m) = Inr (g, e)"
  by (simp add: resolve_device_def)

text \<open>
  C7. A device dictionary without the key \<open>grad\<close> or without the key \<open>energy\<close> makes
  the construction fail: the base constructor stops at its \<open>assert\<close> (the error the
  specification calls ConfigurationError), so every constructor fails, and with that
  error whenever the same call with a string device succeeds. A dictionary with both
  keys gives the gradient device and the energy device each its own entry, and a string
  gives both the same device.
\<close>

theorem device_specification:
  "(m ''grad'' = None \<or> m ''energy'' = None \<longrightarrow>
       resolve_device (DeviceDict m) = Inl AssertionError
     \<and> TensorflowDistribution_init nm (DeviceDict m) prof nd nb built = Inl AssertionError
     \<and> (\<exists>e. construct dump args (DeviceDict m) prof = Inl e)
     \<and> (construct dump args (DeviceStr s) prof = Inr d0 \<longrightarrow>
          construct dump args (DeviceDict m) prof = Inl AssertionError))
   \<and> (m ''grad'' = Some g \<and> m ''energy'' = Some e \<longrightarrow>
       resolve_device (DeviceDict m) = Inr (g, e)
     \<and> (construct dump args (DeviceDict m) prof = Inr d \<longrightarrow>
          grad_device d = g \<and> energy_device d = e))
   \<and> resolve_device (DeviceStr s) = Inr (s, s)
   \<and> (construct dump args (DeviceStr s) prof = Inr d0 \<longrightarrow>
          grad_device d0 = s \<and> energy_device d0 = s)"
proof (intro conjI impI)
  assume a: "m ''grad'' = None \<or> m ''energy'' = None"
  note r = resolve_device_dict_missing[OF a]
  show "resolve_device (DeviceDict m) = Inl AssertionError"
    by (rule r)
  show "TensorflowDistribution_init nm (DeviceDict m) prof nd nb built = Inl AssertionError"
    by (simp add: TensorflowDistribution_init_def r)
  show "\<exists>e. construct dump args (DeviceDict m) prof = Inl e"
    using construct_fails_on_device_error[OF r] .
  assume "construct dump args (DeviceStr s) prof = Inr d0"
  then show "construct dump args (DeviceDict m) prof = Inl AssertionError"
    using r by (rule construct_device_error)
next
  assume a: "m ''grad'' = Some g \<and> m ''energy'' = Some e"
  then show r: "resolve_device (DeviceDict m) = Inr (g, e)"
    by (simp add: resolve_device_dict_both)
  assume "construct dump args (DeviceDict m) prof = Inr d"
  from construct_devices[OF this] r
  have "Inr (grad_device d, energy_device d) = (Inr (g, e) :: error + string \<times> string)"
    by (rule trans[OF sym])
  then show "grad_device d = g" and "energy_device d = e"
    by simp_all
next
  show r: "resolve_device (DeviceStr s) = Inr (s, s)"
    by (simp add: resolve_device_def)
  assume "construct dump args (DeviceStr s) prof = Inr d0"
  from construct_devices[OF this] r
  have "Inr (grad_device d0, energy_device d0) = (Inr (s, s) :: error + string \<times> string)"
    by (rule trans[OF sym])
  then show "grad_device d0 = s" and "energy_device d0 = s"
    by simp_all
qed


theorem device_specification_witness:
  "(Map.empty(''grad'' \<mapsto> ''/gpu:0'')) ''energy'' = None
   \<and> construct no_dump (TFGaussianArgs 2 100 1) (DeviceDict (Map.empty(''grad'' \<mapsto> ''/gpu:0'')))
         False = Inl AssertionError
   \<and> (Map.empty(''grad'' \<mapsto> ''/gpu:0'', ''energy'' \<mapsto> ''/cpu:0'')) ''grad'' = Some ''/gpu:0''
   \<and> (Map.empty(''grad'' \<mapsto> ''/gpu:0'', ''energy'' \<mapsto> ''/cpu:0'')) ''energy'' = Some ''/cpu:0''
   \<and> construct no_dump (TFGaussianArgs 2 100 1)
         (DeviceDict (Map.empty(''grad'' \<mapsto> ''/gpu:0'', ''energy'' \<mapsto> ''/cpu:0''))) False
       = Inr gaussian_split
   \<and> grad_device gaussian_split = ''/gpu:0'' \<and> energy_device gaussian_split = ''/cpu:0''
   \<and> construct no_dump (TFGaussianArgs 2 100 1) (DeviceStr ''/cpu:0'') False = Inr example_gaussian
   \<and> grad_device example_gaussian = ''/cpu:0'' \<and> energy_device example_gaussian = ''/cpu:0''"
proof -
  have c0: "construct no_dump (TFGaussianArgs 2 100 1) (DeviceStr ''/cpu:0'') False
              = Inr example_gaussian"
    by (simp add: construct_def TFGaussian_init_def TensorflowDistribution_init_def
        resolve_device_def example_gaussian_def)
  have c1: "construct no_dump (TFGaussianArgs 2 100 1)
         (DeviceDict (Map.empty(''grad'' \<mapsto> ''/gpu:0'', ''energy'' \<mapsto> ''/cpu:0''))) False
       = Inr gaussian_split"
    by (simp add: construct_def TFGaussian_init_def TensorflowDistribution_init_def
        resolve_device_def gaussian_split_def)
  have m1: "(Map.empty(''grad'' \<mapsto> ''/gpu:0'')) ''energy'' = None"
    by simp
  have m2: "(Map.empty(''grad'' \<mapsto> ''/gpu:0'', ''energy'' \<mapsto> ''/cpu:0'')) ''grad'' = Some ''/gpu:0''
     \<and> (Map.empty(''grad'' \<mapsto> ''/gpu:0'', ''energy'' \<mapsto> ''/cpu:0'')) ''energy'' = Some ''/cpu:0''"
    by simp
  have "construct no_dump (TFGaussianArgs 2 100 1) (DeviceDict (Map.empty(''grad'' \<mapsto> ''/gpu:0'')))
         False = Inl AssertionError"
    using device_specification[where m = "Map.empty(''grad'' \<mapsto> ''/gpu:0'')"
        and dump = no_dump and args = "TFGaussianArgs 2 100 1" and s = "''/cpu:0''"
        and prof = False and ?d0.0 = example_gaussian] m1 c0
    by blast
  moreover have "grad_device gaussian_split = ''/gpu:0'' \<and> energy_device gaussian_split = ''/cpu:0''"
    using device_specification[where
        m = "Map.empty(''grad'' \<mapsto> ''/gpu:0'', ''energy'' \<mapsto> ''/cpu:0'')"
        and g = "''/gpu:0''" and e = "''/cpu:0''"
        and dump = no_dump and args = "TFGaussianArgs 2 100 1"
        and prof = False and d = gaussian_split] m2 c1
    by blast
  moreover have "grad_device example_gaussian = ''/cpu:0''
      \<and> energy_device example_gaussian = ''/cpu:0''"
    using device_specification[where dump = no_dump and args = "TFGaussianArgs 2 100 1"
        and s = "''/cpu:0''" and prof = False and ?d0.0 = example_gaussian] c0
    by blast
  ultimately show ?thesis
    using m1 m2 c0 c1 by blast
qed

subsection \<open>Tracing\<close>

lemma energy_op_prof_run: "energy_op (d\<lparr>prof_run := b\<rparr>) = energy_op d"
  by (cases "model d") (simp_all add: energy_op_def)

lemma grad_op_prof_run: "grad_op (d\<lparr>prof_run := b\<rparr>) = grad_op d"
  by (simp add: grad_op_def energy_op_prof_run)

lemma E_val_prof_run:
  "E_val (d\<lparr>prof_run := True\<rparr>) w X =
     (case E_val (d\<lparr>prof_run := False\<rparr>) w X of
        Inl e \<Rightarrow> Inl e
      | Inr (v, w0) \<Rightarrow>
          (if log_dir w \<in> dirs w
           then Inr (v, w\<lparr>files := (files w)(log_dir w @ ''tf_'' @ name d @ ''_energy_timeline_''
                                           @ time_text w @ ''.json'' \<mapsto> trace_text w)\<rparr>)
           else Inl IOError))"
  by (simp add: E_val_def sess_run_def energy_op_prof_run write_file_def split: sum.splits)

lemma dEdX_val_prof_run:
  "dEdX_val (d\<lparr>prof_run := True\<rparr>) w X =
     (case dEdX_val (d\<lparr>prof_run := False\<rparr>) w X of
        Inl e \<Rightarrow> Inl e
      | Inr (v, w0) \<Rightarrow>
          (if log_dir w \<in> dirs w
           then Inr (v, w\<lparr>files := (files w)(log_dir w @ ''tf_'' @ name d @ ''_grad_timeline_''
                                           @ time_text w @ ''.json'' \<mapsto> trace_text w)\<rparr>)
           else Inl IOError))"
  by (simp add: dEdX_val_def sess_run_def grad_op_prof_run write_file_def split: sum.splits)

lemma E_val_no_prof_world:
  "E_val (d\<lparr>prof_run := False\<rparr>) w X = Inr (v, w0) \<Longrightarrow> w0 = w"
  by (auto simp: E_val_def split: sum.splits)

lemma dEdX_val_no_prof_world:
  "dEdX_val (d\<lparr>prof_run := False\<rparr>) w X = Inr (v, w0) \<Longrightarrow> w0 = w"
  by (auto simp: dEdX_val_def split: sum.splits)

subsection \<open>A gradient, computed\<close>

lemma partial_eq:
  assumes "(g has_real_derivative D) (at x)"
  shows "partial g x = D"
  unfolding partial_def using assms by (blast intro: the_equality DERIV_unique)

lemma example_gaussian_gradient:
  "dEdX_val example_gaussian example_world \<lparr>ncols = 1, rows = [[1], [1]]\<rparr>
     = Inr (\<lparr>ncols = 1, rows = [[1], [1]]\<rparr>, example_world)"
proof -
  have e: "\<And>a b. energy_sum (energy_op example_gaussian) \<lparr>ncols = 1, rows = [[a], [b]]\<rparr>
             = (a\<^sup>2 + b\<^sup>2) / 2"
    by (simp add: energy_sum_def energy_op_def example_gaussian_def TFGaussian_build_energy_op_def
        tf_square_def tf_reduce_sum_0_def)
  have p0: "partial (\<lambda>h. energy_sum (energy_op example_gaussian)
                             \<lparr>ncols = 1, rows = [[h], [1]]\<rparr>) 1 = 1"
    unfolding e by (rule partial_eq) (auto intro!: derivative_eq_intros)
  have p1: "partial (\<lambda>h. energy_sum (energy_op example_gaussian)
                             \<lparr>ncols = 1, rows = [[1], [h]]\<rparr>) 1 = 1"
    unfolding e by (rule partial_eq) (auto intro!: derivative_eq_intros)
  have v: "energy_op example_gaussian \<lparr>ncols = 1, rows = [[1], [1]]\<rparr> = Inr [1]"
    by (simp add: energy_op_def example_gaussian_def TFGaussian_build_energy_op_def
        tf_square_def tf_reduce_sum_0_def)
  have "grad_op example_gaussian \<lparr>ncols = 1, rows = [[1], [1]]\<rparr>
          = Inr \<lparr>ncols = 1, rows = [[1], [1]]\<rparr>"
    unfolding grad_op_def tf_gradients_def v
    by (simp add: put_def upt_conv_Cons p0 p1 del: One_nat_def)
  then show ?thesis
    by (simp add: dEdX_val_def sess_run_def example_gaussian_def)
qed

text \<open>
  C8. For two objects built by the same constructor call but for the tracing flag: when
  the traced evaluation of the energy returns, the untraced one returns the same array
  and leaves the world as it was, and the traced one has only added the trace file; when
  the untraced evaluation returns and the log directory can be written to, the traced
  one returns the same array. Likewise for the gradient.
\<close>

theorem trace_capture_keeps_value:
  "construct dump args dev True = Inr dT \<and> construct dump args dev False = Inr dF \<longrightarrow>
     (E_val dT w X = Inr (v, w') \<longrightarrow>
        E_val dF w X = Inr (v, w)
      \<and> w' = w\<lparr>files := (files w)(log_dir w @ ''tf_'' @ name dT @ ''_energy_timeline_''
                                     @ time_text w @ ''.json'' \<mapsto> trace_text w)\<rparr>)
   \<and> (E_val dF w X = Inr (v, w) \<and> log_dir w \<in> dirs w \<longrightarrow> (\<exists>w1. E_val dT w X = Inr (v, w1)))
   \<and> (dEdX_val dT w X = Inr (G, w') \<longrightarrow>
        dEdX_val dF w X = Inr (G, w)
      \<and> w' = w\<lparr>files := (files w)(log_dir w @ ''tf_'' @ name dT @ ''_grad_timeline_''
                                     @ time_text w @ ''.json'' \<mapsto> trace_text w)\<rparr>)
   \<and> (dEdX_val dF w X = Inr (G, w) \<and> log_dir w \<in> dirs w
        \<longrightarrow> (\<exists>w1. dEdX_val dT w X = Inr (G, w1)))"
proof (intro impI)
  assume a: "construct dump args dev True = Inr dT \<and> construct dump args dev False = Inr dF"
  then have "dF = dT\<lparr>prof_run := False\<rparr>" and "prof_run dT = True"
    using construct_prof_run[of dump args dev True dT False] by simp_all
  then have T: "dT = dT\<lparr>prof_run := True\<rparr>" and F: "dF = dT\<lparr>prof_run := False\<rparr>"
    by simp_all
  have e: "E_val dT w X =
     (case E_val dF w X of
        Inl e \<Rightarrow> Inl e
      | Inr (v, w0) \<Rightarrow>
          (if log_dir w \<in> dirs w
           then Inr (v, w\<lparr>files := (files w)(log_dir w @ ''tf_'' @ name dT @ ''_energy_timeline_''
                                           @ time_text w @ ''.json'' \<mapsto> trace_text w)\<rparr>)
           else Inl IOError))"
    using E_val_prof_run[of dT w X] T F by simp
  have g: "dEdX_val dT w X =
     (case dEdX_val dF w X of
        Inl e \<Rightarrow> Inl e
      | Inr (v, w0) \<Rightarrow>
          (if log_dir w \<in> dirs w
           then Inr (v, w\<lparr>files := (files w)(log_dir w @ ''tf_'' @ name dT @ ''_grad_timeline_''
                                           @ time_text w @ ''.json'' \<mapsto> trace_text w)\<rparr>)
           else Inl IOError))"
    using dEdX_val_prof_run[of dT w X] T F by simp
  have 1: "E_val dT w X = Inr (v, w') \<longrightarrow>
        E_val dF w X = Inr (v, w)
      \<and> w' = w\<lparr>files := (files w)(log_dir w @ ''tf_'' @ name dT @ ''_energy_timeline_''
                                     @ time_text w @ ''.json'' \<mapsto> trace_text w)\<rparr>"
    using e E_val_no_prof_world[of dT w X] F
    by (auto split: sum.splits if_splits)
  have 2: "E_val dF w X = Inr (v, w) \<and> log_dir w \<in> dirs w \<longrightarrow> (\<exists>w1. E_val dT w X = Inr (v, w1))"
    using e by simp
  have 3: "dEdX_val dT w X = Inr (G, w') \<longrightarrow>
        dEdX_val dF w X = Inr (G, w)
      \<and> w' = w\<lparr>files := (files w)(log_dir w @ ''tf_'' @ name dT @ ''_grad_timeline_''
                                     @ time_text w @ ''.json'' \<mapsto> trace_text w)\<rparr>"
    using g dEdX_val_no_prof_world[of dT w X] F
    by (auto split: sum.splits if_splits)
  have 4: "dEdX_val dF w X = Inr (G, w) \<and> log_dir w \<in> dirs w
        \<longrightarrow> (\<exists>w1. dEdX_val dT w X = Inr (G, w1))"
    using g by simp
  from 1 2 3 4 show "(E_val dT w X = Inr (v, w') \<longrightarrow>
        E_val dF w X = Inr (v, w)
      \<and> w' = w\<lparr>files := (files w)(log_dir w @ ''tf_'' @ name dT @ ''_energy_timeline_''
                                     @ time_text w @ ''.json'' \<mapsto> trace_text w)\<rparr>)
   \<and> (E_val dF w X = Inr (v, w) \<and> log_dir w \<in> dirs w \<longrightarrow> (\<exists>w1. E_val dT w X = Inr (v, w1)))
   \<and> (dEdX_val dT w X = Inr (G, w') \<longrightarrow>
        dEdX_val dF w X = Inr (G, w)
      \<and> w' = w\<lparr>files := (files w)(log_dir w @ ''tf_'' @ name dT @ ''_grad_timeline_''
                                     @ time_text w @ ''.json'' \<mapsto> trace_text w)\<rparr>)
   \<and> (dEdX_val dF w X = Inr (G, w) \<and> log_dir w \<in> dirs w
        \<longrightarrow> (\<exists>w1. dEdX_val dT w X = Inr (G, w1)))"
    by blast
qed

theorem trace_capture_keeps_value_witness:
  "construct no_dump (TFGaussianArgs 2 100 1) (DeviceStr ''/cpu:0'') True
     = Inr example_gaussian_traced
   \<and> construct no_dump (TFGaussianArgs 2 100 1) (DeviceStr ''/cpu:0'') False = Inr example_gaussian
   \<and> log_dir example_world \<in> dirs example_world
   \<and> E_val example_gaussian_traced example_world \<lparr>ncols = 1, rows = [[1], [1]]\<rparr>
       = Inr ([1], example_world\<lparr>files := (files example_world)
               (''/home/user/tmp/logs/tf_TFGaussian_energy_timeline_1478264400.0.json''
                  \<mapsto> ''{}'')\<rparr>)
   \<and> E_val example_gaussian example_world \<lparr>ncols = 1, rows = [[1], [1]]\<rparr>
       = Inr ([1], example_world)
   \<and> dEdX_val example_gaussian_traced example_world \<lparr>ncols = 1, rows = [[1], [1]]\<rparr>
       = Inr (\<lparr>ncols = 1, rows = [[1], [1]]\<rparr>,
              example_world\<lparr>files := (files example_world)
               (''/home/user/tmp/logs/tf_TFGaussian_grad_timeline_1478264400.0.json''
                  \<mapsto> ''{}'')\<rparr>)
   \<and> dEdX_val example_gaussian example_world \<lparr>ncols = 1, rows = [[1], [1]]\<rparr>
       = Inr (\<lparr>ncols = 1, rows = [[1], [1]]\<rparr>, example_world)"
proof -
  have cT: "construct no_dump (TFGaussianArgs 2 100 1) (DeviceStr ''/cpu:0'') True
             = Inr example_gaussian_traced"
    by (simp add: construct_def TFGaussian_init_def TensorflowDistribution_init_def
        resolve_device_def example_gaussian_def example_gaussian_traced_def)
  have cF: "construct no_dump (TFGaussianArgs 2 100 1) (DeviceStr ''/cpu:0'') False
             = Inr example_gaussian"
    by (simp add: construct_def TFGaussian_init_def TensorflowDistribution_init_def
        resolve_device_def example_gaussian_def)
  have l: "log_dir example_world \<in> dirs example_world"
    by (simp add: log_dir_def example_world_def)
  have eT: "E_val example_gaussian_traced example_world \<lparr>ncols = 1, rows = [[1], [1]]\<rparr>
       = Inr ([1], example_world\<lparr>files := (files example_world)
               (''/home/user/tmp/logs/tf_TFGaussian_energy_timeline_1478264400.0.json''
                  \<mapsto> ''{}'')\<rparr>)"
    by (simp add: E_val_def sess_run_def energy_op_def example_gaussian_traced_def
        example_gaussian_def TFGaussian_build_energy_op_def tf_square_def tf_reduce_sum_0_def
        write_file_def log_dir_def example_world_def)
  have gF: "dEdX_val example_gaussian example_world \<lparr>ncols = 1, rows = [[1], [1]]\<rparr>
       = Inr (\<lparr>ncols = 1, rows = [[1], [1]]\<rparr>, example_world)"
    by (rule example_gaussian_gradient)
  note t = trace_capture_keeps_value[where dump = no_dump and args = "TFGaussianArgs 2 100 1"
      and dev = "DeviceStr ''/cpu:0''" and dT = example_gaussian_traced and dF = example_gaussian
      and w = example_world and X = "\<lparr>ncols = 1, rows = [[1], [1]]\<rparr>"]
  have eF: "E_val example_gaussian example_world \<lparr>ncols = 1, rows = [[1], [1]]\<rparr>
       = Inr ([1], example_world)"
    using t cT cF eT by blast
  obtain w1 where gT: "dEdX_val example_gaussian_traced example_world
       \<lparr>ncols = 1, rows = [[1], [1]]\<rparr> = Inr (\<lparr>ncols = 1, rows = [[1], [1]]\<rparr>, w1)"
    using t[where G = "\<lparr>ncols = 1, rows = [[1], [1]]\<rparr>"] cT cF gF l by blast
  then have "w1 = example_world\<lparr>files := (files example_world)
               (''/home/user/tmp/logs/tf_TFGaussian_grad_timeline_1478264400.0.json''
                  \<mapsto> ''{}'')\<rparr>"
    using t[where G = "\<lparr>ncols = 1, rows = [[1], [1]]\<rparr>" and w' = w1] cT cF
    by (simp add: log_dir_def example_world_def example_gaussian_traced_def example_gaussian_def)
  with gT cT cF l eT eF gF show ?thesis
    by simp
qed

text \<open>
  C9. A dictionary that gives the gradient and the energy the device \<open>s\<close> builds the
  same object as the string \<open>s\<close>, so the energy and the gradient of every batch are the
  same.
\<close>

theorem device_string_or_dictionary:
  "(m ''grad'' = Some s \<and> m ''energy'' = Some s \<longrightarrow>
      construct dump args (DeviceDict m) prof = construct dump args (DeviceStr s) prof)
   \<and> (construct dump args (DeviceStr s) prof = Inr d \<longrightarrow>
        (\<exists>d'. construct dump args (DeviceDict (Map.empty(''grad'' \<mapsto> s, ''energy'' \<mapsto> s))) prof
                = Inr d'
           \<and> E_val d' w X = E_val d w X \<and> dEdX_val d' w X = dEdX_val d w X))"
proof (intro conjI impI)
  assume "m ''grad'' = Some s \<and> m ''energy'' = Some s"
  then have "resolve_device (DeviceDict m) = resolve_device (DeviceStr s)"
    by (simp add: resolve_device_def)
  then show "construct dump args (DeviceDict m) prof = construct dump args (DeviceStr s) prof"
    by (rule construct_same_devices)
next
  assume c: "construct dump args (DeviceStr s) prof = Inr d"
  have "resolve_device (DeviceDict (Map.empty(''grad'' \<mapsto> s, ''energy'' \<mapsto> s)))
          = resolve_device (DeviceStr s)"
    by (simp add: resolve_device_def)
  then have "construct dump args (DeviceDict (Map.empty(''grad'' \<mapsto> s, ''energy'' \<mapsto> s))) prof
               = construct dump args (DeviceStr s) prof"
    by (rule construct_same_devices)
  from this c have "construct dump args (DeviceDict (Map.empty(''grad'' \<mapsto> s, ''energy'' \<mapsto> s))) prof
               = Inr d"
    by (rule trans)
  then have "construct dump args (DeviceDict (Map.empty(''grad'' \<mapsto> s, ''energy'' \<mapsto> s))) prof
                = Inr d
           \<and> E_val d w X = E_val d w X \<and> dEdX_val d w X = dEdX_val d w X"
    by (intro conjI refl)
  then show "\<exists>d'. construct dump args (DeviceDict (Map.empty(''grad'' \<mapsto> s, ''energy'' \<mapsto> s))) prof
                = Inr d'
           \<and> E_val d' w X = E_val d w X \<and> dEdX_val d' w X = dEdX_val d w X"
    by (rule exI)
qed

theorem device_string_or_dictionary_witness:
  "(Map.empty(''grad'' \<mapsto> ''/cpu:0'', ''energy'' \<mapsto> ''/cpu:0'')) ''grad'' = Some ''/cpu:0''
   \<and> (Map.empty(''grad'' \<mapsto> ''/cpu:0'', ''energy'' \<mapsto> ''/cpu:0'')) ''energy'' = Some ''/cpu:0''
   \<and> construct no_dump (TFGaussianArgs 2 100 1) (DeviceStr ''/cpu:0'') False = Inr example_gaussian
   \<and> construct no_dump (TFGaussianArgs 2 100 1)
        (DeviceDict (Map.empty(''grad'' \<mapsto> ''/cpu:0'', ''energy'' \<mapsto> ''/cpu:0''))) False
       = Inr example_gaussian"
proof -
  have c: "construct no_dump (TFGaussianArgs 2 100 1) (DeviceStr ''/cpu:0'') False
             = Inr example_gaussian"
    by (simp add: construct_def TFGaussian_init_def TensorflowDistribution_init_def
        resolve_device_def example_gaussian_def)
  have m: "(Map.empty(''grad'' \<mapsto> ''/cpu:0'', ''energy'' \<mapsto> ''/cpu:0'')) ''grad'' = Some ''/cpu:0''
     \<and> (Map.empty(''grad'' \<mapsto> ''/cpu:0'', ''energy'' \<mapsto> ''/cpu:0'')) ''energy'' = Some ''/cpu:0''"
    by simp
  have "construct no_dump (TFGaussianArgs 2 100 1)
        (DeviceDict (Map.empty(''grad'' \<mapsto> ''/cpu:0'', ''energy'' \<mapsto> ''/cpu:0''))) False
       = Inr example_gaussian"
    using device_string_or_dictionary[where
        m = "Map.empty(''grad'' \<mapsto> ''/cpu:0'', ''energy'' \<mapsto> ''/cpu:0'')" and s = "''/cpu:0''"
        and dump = no_dump and args = "TFGaussianArgs 2 100 1" and prof = False] m c
    by simp
  with m c show ?thesis
    by blast
qed

subsection \<open>The Funnel\<close>

lemma sum_list_add_const:
  "sum_list (map (\<lambda>r. a + f r) xs) = real (length xs) * a + sum_list (map f xs)"
  for a :: real
  by (induction xs) (simp_all add: algebra_simps)

lemma Funnel_build_energy_op_formula:
  assumes "has_shape X n b" and "rows X = x_0 # x_k"
  shows "Funnel_build_energy_op sc X =
     Inr (map (\<lambda>j. real (length x_k) * (- ((x_0 ! j)\<^sup>2 / sc\<^sup>2))
                    + sum_list (map (\<lambda>row. - ((row ! j)\<^sup>2 / exp (x_0 ! j))) x_k)) [0..<b])"
proof -
  have l0: "length x_0 = b" and lk: "\<And>row. row \<in> set x_k \<Longrightarrow> length row = b"
    and nc: "ncols X = b"
    using assms by (simp_all add: has_shape_def list_all_iff)
  let ?e0 = "tf_neg (map (\<lambda>s. s / sc\<^sup>2) (tf_square x_0))"
  let ?ek = "map (\<lambda>row. tf_neg (map2 (/) (tf_square row) (map exp x_0))) x_k"
  let ?t = "map (\<lambda>row. map2 (+) ?e0 row) ?ek"
  have wf: "list_all (\<lambda>row. length row = b) ?t"
    using l0 lk by (simp add: list_all_iff tf_neg_def tf_square_def)
  have entry: "\<And>row j. row \<in> set x_k \<Longrightarrow> j < b \<Longrightarrow>
      map2 (+) ?e0 (tf_neg (map2 (/) (tf_square row) (map exp x_0))) ! j
        = - ((x_0 ! j)\<^sup>2 / sc\<^sup>2) + - ((row ! j)\<^sup>2 / exp (x_0 ! j))"
    using l0 lk by (simp add: tf_neg_def tf_square_def)
  have "tf_reduce_sum_0 b ?t =
      map (\<lambda>j. sum_list (map (\<lambda>row. - ((x_0 ! j)\<^sup>2 / sc\<^sup>2) + - ((row ! j)\<^sup>2 / exp (x_0 ! j))) x_k))
        [0..<b]"
    unfolding tf_reduce_sum_0_nth[OF wf]
    using entry by (auto simp: comp_def intro!: arg_cong[where f=sum_list])
  then have "tf_reduce_sum_0 b ?t =
      map (\<lambda>j. real (length x_k) * (- ((x_0 ! j)\<^sup>2 / sc\<^sup>2))
                    + sum_list (map (\<lambda>row. - ((row ! j)\<^sup>2 / exp (x_0 ! j))) x_k)) [0..<b]"
    by (simp only: sum_list_add_const)
  then show ?thesis
    by (simp add: Funnel_build_energy_op_def assms(2) nc Let_def)
qed

text \<open>
  The energy the Funnel computes: the term of the first coordinate is added to the term
  of every other coordinate before the sum over the rows, so it is counted
  \<open>ndims - 1\<close> times.
\<close>

theorem Funnel_energy_computed:
  assumes "construct dump (FunnelArgs sc nb nd) dev prof = Inr d" and "sc \<noteq> 0"
    and "has_shape X (ndims d) b" and "can_log d w"
  shows "\<exists>w'. E_val d w X =
           Inr (map (\<lambda>j. real (ndims d - 1) * (- ((rows X ! 0 ! j)\<^sup>2 / (of_rat sc)\<^sup>2))
                          + sum_list (map (\<lambda>row. - ((row ! j)\<^sup>2 / exp (rows X ! 0 ! j)))
                                        (drop 1 (rows X))))
                  [0..<b], w')"
proof -
  have f: "ndims d = nat nd" "model d = Funnel sc" "1 \<le> nd"
    using assms(1) Funnel_init_fields by (simp_all add: construct_def)
  have len: "length (rows X) = ndims d"
    using assms(3) by (simp add: has_shape_def)
  with f obtain x_0 x_k where r: "rows X = x_0 # x_k"
    by (cases "rows X") auto
  with len have k: "length x_k = ndims d - 1"
    by simp
  have "energy_op d X =
          Inr (map (\<lambda>j. real (ndims d - 1) * (- ((rows X ! 0 ! j)\<^sup>2 / (of_rat sc)\<^sup>2))
                          + sum_list (map (\<lambda>row. - ((row ! j)\<^sup>2 / exp (rows X ! 0 ! j)))
                                        (drop 1 (rows X))))
                  [0..<b])"
    using Funnel_build_energy_op_formula[OF assms(3) r, of "of_rat sc"]
    by (simp add: energy_op_def f r k)
  with len assms(4) show ?thesis
    using E_val_value by blast
qed

theorem Funnel_energy_computed_witness:
  "construct no_dump (FunnelArgs 1 50 3) (DeviceStr ''/cpu:0'') False = Inr example_funnel
   \<and> (1 :: rat) \<noteq> 0
   \<and> has_shape \<lparr>ncols = 2, rows = [[0, 1], [2, 0], [1, 0]]\<rparr> (ndims example_funnel) 2
   \<and> can_log example_funnel example_world
   \<and> (\<exists>w'. E_val example_funnel example_world \<lparr>ncols = 2, rows = [[0, 1], [2, 0], [1, 0]]\<rparr>
              = Inr ([- 5, - 2], w'))"
proof -
  have c: "construct no_dump (FunnelArgs 1 50 3) (DeviceStr ''/cpu:0'') False = Inr example_funnel"
    by (simp add: construct_def Funnel_init_def TensorflowDistribution_init_def
        resolve_device_def example_funnel_def)
  have s: "has_shape \<lparr>ncols = 2, rows = [[0, 1], [2, 0], [1, 0]]\<rparr> (ndims example_funnel) 2"
    by (simp add: has_shape_def example_funnel_def)
  have l: "can_log example_funnel example_world"
    by (simp add: can_log_def example_funnel_def)
  have n: "ndims example_funnel = 3"
    by (simp add: example_funnel_def)
  have "\<exists>w'. E_val example_funnel example_world \<lparr>ncols = 2, rows = [[0, 1], [2, 0], [1, 0]]\<rparr>
              = Inr ([- 5, - 2], w')"
    using Funnel_energy_computed[OF c _ s l] by (simp add: n upt_conv_Cons)
  moreover have "(1 :: rat) \<noteq> 0"
    by simp
  ultimately show ?thesis
    using c s l by blast
qed

text \<open>
  C1. The specification states the energy \<open>-(x0\<^sup>2 / scale\<^sup>2) - sum_k (x_k\<^sup>2 / exp x0)\<close>
  for each column. For the Funnel with \<open>scale = 1\<close> and \<open>ndims = 3\<close> and the column
  \<open>(1, 0, 0)\<close> that is \<open>-1\<close>; the evaluation returns \<open>-2\<close>, since the first term is
  counted for each of the two other coordinates.
\<close>

theorem Funnel_energy_three_dims:
  "construct no_dump (FunnelArgs 1 50 3) (DeviceStr ''/cpu:0'') False = Inr example_funnel
   \<and> has_shape \<lparr>ncols = 1, rows = [[1], [0], [0]]\<rparr> (ndims example_funnel) 1
   \<and> E_val example_funnel example_world \<lparr>ncols = 1, rows = [[1], [0], [0]]\<rparr>
       = Inr ([- 2], example_world)
   \<and> Funnel_energy_stated 1 \<lparr>ncols = 1, rows = [[1], [0], [0]]\<rparr> 0 = - 1"
proof (intro conjI)
  show "construct no_dump (FunnelArgs 1 50 3) (DeviceStr ''/cpu:0'') False = Inr example_funnel"
    by (simp add: construct_def Funnel_init_def TensorflowDistribution_init_def
        resolve_device_def example_funnel_def)
  show "has_shape \<lparr>ncols = 1, rows = [[1], [0], [0]]\<rparr> (ndims example_funnel) 1"
    by (simp add: has_shape_def example_funnel_def)
  show "E_val example_funnel example_world \<lparr>ncols = 1, rows = [[1], [0], [0]]\<rparr>
       = Inr ([- 2], example_world)"
    by (simp add: E_val_def sess_run_def energy_op_def example_funnel_def
        Funnel_build_energy_op_def tf_neg_def tf_square_def tf_reduce_sum_0_def)
  show "Funnel_energy_stated 1 \<lparr>ncols = 1, rows = [[1], [0], [0]]\<rparr> 0 = - 1"
    by (simp add: Funnel_energy_stated_def sum.atLeast_Suc_lessThan)
qed

subsection \<open>The isotropic Gaussian\<close>

lemma TFGaussian_build_energy_op_formula:
  assumes "has_shape X n b"
  shows "TFGaussian_build_energy_op s X =
     Inr (map (\<lambda>j. sum_list (map (\<lambda>row. (row ! j)\<^sup>2) (rows X)) / (2 * s\<^sup>2)) [0..<b])"
proof -
  have wf: "list_all (\<lambda>row. length row = b) (map tf_square (rows X))"
    using assms by (simp add: has_shape_def tf_square_def list_all_iff)
  have nc: "ncols X = b"
    using assms by (simp add: has_shape_def)
  have "tf_reduce_sum_0 b (map tf_square (rows X)) =
        map (\<lambda>j. sum_list (map (\<lambda>row. (row ! j)\<^sup>2) (rows X))) [0..<b]"
  proof -
    have "\<And>j row. j < b \<Longrightarrow> row \<in> set (rows X) \<Longrightarrow> tf_square row ! j = (row ! j)\<^sup>2"
      using assms by (simp add: has_shape_def tf_square_def list_all_iff)
    then show ?thesis
      unfolding tf_reduce_sum_0_nth[OF wf]
      by (auto simp: comp_def intro!: arg_cong[where f=sum_list])
  qed
  then show ?thesis
    by (simp add: TFGaussian_build_energy_op_def nc comp_def)
qed

lemma TFGaussian_E_val:
  assumes "construct dump (TFGaussianArgs nd nb sg) dev prof = Inr d"
    and "has_shape X (ndims d) b" and "can_log d w"
  shows "\<exists>w'. E_val d w X =
           Inr (map (\<lambda>j. sum_list (map (\<lambda>row. (row ! j)\<^sup>2) (rows X)) / (2 * (of_rat sg)\<^sup>2))
                  [0..<b], w')"
proof -
  have m: "model d = TFGaussian sg"
    using assms(1) TFGaussian_init_fields by (simp add: construct_def)
  have "energy_op d X =
          Inr (map (\<lambda>j. sum_list (map (\<lambda>row. (row ! j)\<^sup>2) (rows X)) / (2 * (of_rat sg)\<^sup>2)) [0..<b])"
    using TFGaussian_build_energy_op_formula[OF assms(2)] by (simp add: energy_op_def m)
  moreover have "length (rows X) = ndims d"
    using assms(2) by (simp add: has_shape_def)
  ultimately show ?thesis
    using assms(3) E_val_value by blast
qed

text \<open>
  C3. For the isotropic Gaussian with parameter \<open>sigma \<noteq> 0\<close> and a batch \<open>X\<close> of shape
  \<open>[ndims, b]\<close>, the energy of column \<open>j\<close> is the sum over the rows of the squared
  entries of the column, divided by \<open>2 * sigma\<^sup>2\<close>. In particular, for \<open>ndims = 2\<close> and
  \<open>sigma = 1\<close> the energy of \<open>[[0], [0]]\<close> is \<open>[0]\<close> and the energy of \<open>[[1], [1]]\<close> is
  \<open>[1]\<close>. (When tracing is on, the evaluation returns provided the trace can be
  written.)
\<close>

theorem TFGaussian_energy:
  "(construct dump (TFGaussianArgs nd nb sg) dev prof = Inr d \<and> sg \<noteq> 0
      \<and> has_shape X (ndims d) b \<and> can_log d w
    \<longrightarrow> (\<exists>w'. E_val d w X =
           Inr (map (\<lambda>j. sum_list (map (\<lambda>row. (row ! j)\<^sup>2) (rows X)) / (2 * (of_rat sg)\<^sup>2))
                  [0..<b], w')))
   \<and> (construct dump (TFGaussianArgs 2 nb 1) dev prof = Inr g \<and> can_log g w
    \<longrightarrow> (\<exists>w'. E_val g w \<lparr>ncols = 1, rows = [[0], [0]]\<rparr> = Inr ([0], w'))
      \<and> (\<exists>w'. E_val g w \<lparr>ncols = 1, rows = [[1], [1]]\<rparr> = Inr ([1], w')))"
proof (intro conjI impI)
  assume "construct dump (TFGaussianArgs nd nb sg) dev prof = Inr d \<and> sg \<noteq> 0
      \<and> has_shape X (ndims d) b \<and> can_log d w"
  then show "\<exists>w'. E_val d w X =
           Inr (map (\<lambda>j. sum_list (map (\<lambda>row. (row ! j)\<^sup>2) (rows X)) / (2 * (of_rat sg)\<^sup>2))
                  [0..<b], w')"
    using TFGaussian_E_val by blast
next
  assume a: "construct dump (TFGaussianArgs 2 nb 1) dev prof = Inr g \<and> can_log g w"
  then have n: "ndims g = 2"
    using TFGaussian_init_fields by (fastforce simp: construct_def)
  have "has_shape \<lparr>ncols = 1, rows = [[0], [0]]\<rparr> (ndims g) 1"
    by (simp add: has_shape_def n)
  from TFGaussian_E_val[OF conjunct1[OF a] this conjunct2[OF a]]
  show "\<exists>w'. E_val g w \<lparr>ncols = 1, rows = [[0], [0]]\<rparr> = Inr ([0], w')"
    by simp
next
  assume a: "construct dump (TFGaussianArgs 2 nb 1) dev prof = Inr g \<and> can_log g w"
  then have n: "ndims g = 2"
    using TFGaussian_init_fields by (fastforce simp: construct_def)
  have "has_shape \<lparr>ncols = 1, rows = [[1], [1]]\<rparr> (ndims g) 1"
    by (simp add: has_shape_def n)
  from TFGaussian_E_val[OF conjunct1[OF a] this conjunct2[OF a]]
  show "\<exists>w'. E_val g w \<lparr>ncols = 1, rows = [[1], [1]]\<rparr> = Inr ([1], w')"
    by simp
qed

theorem TFGaussian_energy_witness:
  "construct no_dump (TFGaussianArgs 2 100 1) (DeviceStr ''/cpu:0'') False = Inr example_gaussian
   \<and> (1 :: rat) \<noteq> 0
   \<and> has_shape \<lparr>ncols = 2, rows = [[3, 1], [4, 2]]\<rparr> (ndims example_gaussian) 2
   \<and> can_log example_gaussian example_world
   \<and> (\<exists>w'. E_val example_gaussian example_world \<lparr>ncols = 2, rows = [[3, 1], [4, 2]]\<rparr>
              = Inr ([25 / 2, 5 / 2], w'))
   \<and> (\<exists>w'. E_val example_gaussian example_world \<lparr>ncols = 1, rows = [[0], [0]]\<rparr> = Inr ([0], w'))
   \<and> (\<exists>w'. E_val example_gaussian example_world \<lparr>ncols = 1, rows = [[1], [1]]\<rparr> = Inr ([1], w'))"
proof -
  have c: "construct no_dump (TFGaussianArgs 2 100 1) (DeviceStr ''/cpu:0'') False
             = Inr example_gaussian"
    by (simp add: construct_def TFGaussian_init_def TensorflowDistribution_init_def
        resolve_device_def example_gaussian_def)
  have s: "has_shape \<lparr>ncols = 2, rows = [[3, 1], [4, 2]]\<rparr> (ndims example_gaussian) 2"
    by (simp add: has_shape_def example_gaussian_def)
  have l: "can_log example_gaussian example_world"
    by (simp add: can_log_def example_gaussian_def)
  note t = TFGaussian_energy[where dump = no_dump and nd = 2 and nb = 100 and sg = 1
      and dev = "DeviceStr ''/cpu:0''" and prof = False and d = example_gaussian
      and X = "\<lparr>ncols = 2, rows = [[3, 1], [4, 2]]\<rparr>" and b = 2 and w = example_world
      and g = example_gaussian]
  have "\<exists>w'. E_val example_gaussian example_world \<lparr>ncols = 2, rows = [[3, 1], [4, 2]]\<rparr>
              = Inr ([25 / 2, 5 / 2], w')"
    using t c s l by (simp add: upt_conv_Cons)
  moreover have "(\<exists>w'. E_val example_gaussian example_world \<lparr>ncols = 1, rows = [[0], [0]]\<rparr>
                       = Inr ([0], w'))
      \<and> (\<exists>w'. E_val example_gaussian example_world \<lparr>ncols = 1, rows = [[1], [1]]\<rparr>
                       = Inr ([1], w'))"
    using t c l by blast
  moreover have "(1 :: rat) \<noteq> 0"
    by simp
  ultimately show ?thesis
    using c s l by blast
qed

subsection \<open>Hashes\<close>








text \<open>
  Positive values of \<open>sigma\<close> collide as well: \<open>2 ^ 61\<close> is \<open>1\<close> modulo \<open>2 ^ 61 - 1\<close>, so
  \<open>sigma = 1\<close> and \<open>sigma = 2 ^ 61\<close> have the same hash.
\<close>

lemma TFGaussian_hash_collision_positive:
  "TFGaussian_hash (d\<lparr>model := TFGaussian 1\<rparr>)
     = TFGaussian_hash (d\<lparr>model := TFGaussian 2305843009213693952\<rparr>)"
  by (simp add: TFGaussian_hash_def hash_number_def hash_modulus_def)

lemma SparseImageCode_hash_eq:
  "SparseImageCode_hash bh s =
     ((case bh (arr (imgs s)) of
         Inl e \<Rightarrow> Inl e
       | Inr h_imgs \<Rightarrow>
           (case bh (arr (basis s)) of
              Inl e \<Rightarrow> Inl e
            | Inr h_basis \<Rightarrow>
                Inr (tuplehash
                       [hash_int h_imgs,
                        hash_int h_basis,
                        hash_int (hash_number (lmbda s)),
                        hash_int (hash_int (int (n_patches s))),
                        hash_int (int (n_coeffs s))]))),
      s\<lparr>imgs := (imgs s)\<lparr>writeable := False\<rparr>, basis := (basis s)\<lparr>writeable := False\<rparr>\<rparr>)"
  by (simp add: SparseImageCode_hash_def hash_buffer_def Let_def split: sum.splits)

lemma py_hash_SparseImageCode:
  assumes "model d = SparseImageCode s"
  shows "py_hash bh d =
     (fst (SparseImageCode_hash bh s),
      d\<lparr>model := SparseImageCode
            (s\<lparr>imgs := (imgs s)\<lparr>writeable := False\<rparr>,
               basis := (basis s)\<lparr>writeable := False\<rparr>\<rparr>)\<rparr>)"
  by (simp add: py_hash_def assms SparseImageCode_hash_eq)

lemma construct_SparseImageCode_cauchy:
  assumes "construct dump (SparseImageCodeArgs np nbt c1 nbs) dev prof = Inr d1"
    and "construct dump (SparseImageCodeArgs np nbt c2 nbs) dev prof = Inr d2"
  shows "\<exists>s. model d1 = SparseImageCode s \<and> cauchy s = c1
           \<and> model d2 = SparseImageCode (s\<lparr>cauchy := c2\<rparr>)"
proof -
  from assms(1) obtain im ba pt where 1: "dump nbs = Some (im, ba)"
    "build_patches (arr im) np (length (rows (arr ba))) = Inr pt"
    "model d1 = SparseImageCode
            \<lparr>lmbda = 1 / 100, imgs = im, basis = ba, img_size = length (rows (arr ba)),
             n_coeffs = ncols (arr ba), n_patches = np, cauchy = c1, patches = pt\<rparr>"
    using SparseImageCode_init_fields[of dump np nbt c1 nbs dev prof d1]
    by (auto simp: construct_def)
  from assms(2) obtain im' ba' pt' where 2: "dump nbs = Some (im', ba')"
    "build_patches (arr im') np (length (rows (arr ba'))) = Inr pt'"
    "model d2 = SparseImageCode
            \<lparr>lmbda = 1 / 100, imgs = im', basis = ba', img_size = length (rows (arr ba')),
             n_coeffs = ncols (arr ba'), n_patches = np, cauchy = c2, patches = pt'\<rparr>"
    using SparseImageCode_init_fields[of dump np nbt c2 nbs dev prof d2]
    by (auto simp: construct_def)
  from 1 2 have "im' = im" "ba' = ba"
    by simp_all
  with 1 2 have "pt' = pt"
    by simp
  with 1 2 \<open>im' = im\<close> \<open>ba' = ba\<close> show ?thesis
    by simp
qed

text \<open>
  C6. The hash of a \<open>SparseImageCode\<close> is the tuple hash of the hashes of the content
  of \<open>imgs\<close> and of \<open>basis\<close>, of \<open>lmbda\<close>, of \<open>n_patches\<close> and of \<open>n_coeffs\<close>. It does
  not read \<open>cauchy\<close>: two objects that agree on those five have the same hash, and two
  objects built by constructor calls that differ in the \<open>cauchy\<close> flag only have the
  same hash.
\<close>

theorem SparseImageCode_hash_ignores_cauchy:
  "(bh (arr (imgs s)) = Inr h_imgs \<and> bh (arr (basis s)) = Inr h_basis
      \<longrightarrow> fst (SparseImageCode_hash bh s) =
            Inr (tuplehash
                   [hash_int h_imgs,
                    hash_int h_basis,
                    hash_int (hash_number (lmbda s)),
                    hash_int (hash_int (int (n_patches s))),
                    hash_int (int (n_coeffs s))]))
   \<and> fst (SparseImageCode_hash bh (s\<lparr>cauchy := c\<rparr>)) = fst (SparseImageCode_hash bh s)
   \<and> (arr (imgs s) = arr (imgs t) \<and> arr (basis s) = arr (basis t) \<and> lmbda s = lmbda t
        \<and> n_patches s = n_patches t \<and> n_coeffs s = n_coeffs t
      \<longrightarrow> fst (SparseImageCode_hash bh s) = fst (SparseImageCode_hash bh t))
   \<and> (construct dump (SparseImageCodeArgs np nbt c1 nbs) dev prof = Inr d1
        \<and> construct dump (SparseImageCodeArgs np nbt c2 nbs) dev prof = Inr d2
      \<longrightarrow> fst (py_hash bh d1) = fst (py_hash bh d2))"
proof (intro conjI impI)
  assume "bh (arr (imgs s)) = Inr h_imgs \<and> bh (arr (basis s)) = Inr h_basis"
  then show "fst (SparseImageCode_hash bh s) =
     Inr (tuplehash
            [hash_int h_imgs,
             hash_int h_basis,
             hash_int (hash_number (lmbda s)),
             hash_int (hash_int (int (n_patches s))),
             hash_int (int (n_coeffs s))])"
    by (simp add: SparseImageCode_hash_eq split: sum.splits)
next
  show "fst (SparseImageCode_hash bh (s\<lparr>cauchy := c\<rparr>)) = fst (SparseImageCode_hash bh s)"
    by (simp add: SparseImageCode_hash_eq split: sum.splits)
next
  assume "arr (imgs s) = arr (imgs t) \<and> arr (basis s) = arr (basis t) \<and> lmbda s = lmbda t
        \<and> n_patches s = n_patches t \<and> n_coeffs s = n_coeffs t"
  then show "fst (SparseImageCode_hash bh s) = fst (SparseImageCode_hash bh t)"
    by (simp add: SparseImageCode_hash_eq split: sum.splits)
next
  assume a: "construct dump (SparseImageCodeArgs np nbt c1 nbs) dev prof = Inr d1
        \<and> construct dump (SparseImageCodeArgs np nbt c2 nbs) dev prof = Inr d2"
  then obtain s0 where m: "model d1 = SparseImageCode s0"
      "model d2 = SparseImageCode (s0\<lparr>cauchy := c2\<rparr>)"
    using construct_SparseImageCode_cauchy by blast
  show "fst (py_hash bh d1) = fst (py_hash bh d2)"
    by (simp add: py_hash_SparseImageCode[OF m(1)] py_hash_SparseImageCode[OF m(2)]
        SparseImageCode_hash_eq split: sum.splits)
qed

theorem SparseImageCode_hash_ignores_cauchy_witness:
  "construct example_dump (SparseImageCodeArgs 1 2 True 1024) (DeviceStr ''/cpu:0'') False
     = Inr (example_sparse True)
   \<and> construct example_dump (SparseImageCodeArgs 1 2 False 1024) (DeviceStr ''/cpu:0'') False
     = Inr (example_sparse False)
   \<and> example_sparse True \<noteq> example_sparse False
   \<and> fst (py_hash example_buffer_hash (example_sparse True))
       = fst (py_hash example_buffer_hash (example_sparse False))
   \<and> arr (imgs (example_code True)) = arr (imgs (example_code False))
   \<and> arr (basis (example_code True)) = arr (basis (example_code False))
   \<and> lmbda (example_code True) = lmbda (example_code False)
   \<and> n_patches (example_code True) = n_patches (example_code False)
   \<and> n_coeffs (example_code True) = n_coeffs (example_code False)
   \<and> fst (SparseImageCode_hash example_buffer_hash (example_code True))
       = fst (SparseImageCode_hash example_buffer_hash (example_code False))
   \<and> example_buffer_hash (arr (imgs (example_code True))) = Inr 15
   \<and> example_buffer_hash (arr (basis (example_code True))) = Inr 2
   \<and> fst (SparseImageCode_hash example_buffer_hash (example_code True))
       = Inr (tuplehash
                [hash_int 15,
                 hash_int 2,
                 hash_int (hash_number (lmbda (example_code True))),
                 hash_int (hash_int (int (n_patches (example_code True)))),
                 hash_int (int (n_coeffs (example_code True)))])"
proof -
  have c: "\<And>cau. construct example_dump (SparseImageCodeArgs 1 2 cau 1024) (DeviceStr ''/cpu:0'')
              False = Inr (example_sparse cau)"
    by (simp add: construct_def SparseImageCode_init_def TensorflowDistribution_init_def
        resolve_device_def example_sparse_def example_dump_def example_code_def example_imgs_def
        example_basis_def build_patches_def select_patches_def reshape3_def reshape2_def
        upt_conv_Cons)
  have n: "example_sparse True \<noteq> example_sparse False"
    by (simp add: example_sparse_def example_code_def)
  have e: "arr (imgs (example_code True)) = arr (imgs (example_code False))
   \<and> arr (basis (example_code True)) = arr (basis (example_code False))
   \<and> lmbda (example_code True) = lmbda (example_code False)
   \<and> n_patches (example_code True) = n_patches (example_code False)
   \<and> n_coeffs (example_code True) = n_coeffs (example_code False)"
    by (simp add: example_code_def)
  have b: "example_buffer_hash (arr (imgs (example_code True))) = Inr 15
   \<and> example_buffer_hash (arr (basis (example_code True))) = Inr 2"
    by (simp add: example_buffer_hash_def example_code_def example_imgs_def example_basis_def)
  note t = SparseImageCode_hash_ignores_cauchy[where bh = example_buffer_hash
      and dump = example_dump and np = 1 and nbt = 2 and ?c1.0 = True and ?c2.0 = False
      and nbs = 1024 and dev = "DeviceStr ''/cpu:0''" and prof = False
      and ?d1.0 = "example_sparse True" and ?d2.0 = "example_sparse False"
      and s = "example_code True" and t = "example_code False"
      and h_imgs = 15 and h_basis = 2]
  have 1: "fst (py_hash example_buffer_hash (example_sparse True))
       = fst (py_hash example_buffer_hash (example_sparse False))"
    using t c[of True] c[of False] by blast
  have 2: "fst (SparseImageCode_hash example_buffer_hash (example_code True))
       = fst (SparseImageCode_hash example_buffer_hash (example_code False))"
    using t e by blast
  have 3: "fst (SparseImageCode_hash example_buffer_hash (example_code True))
       = Inr (tuplehash
                [hash_int 15,
                 hash_int 2,
                 hash_int (hash_number (lmbda (example_code True))),
                 hash_int (hash_int (int (n_patches (example_code True)))),
                 hash_int (int (n_coeffs (example_code True)))])"
    using t b by blast
  from c[of True] c[of False] n e b 1 2 3 show ?thesis
    by blast
qed

text \<open>
  C10. Hashing a \<open>SparseImageCode\<close> object leaves it with \<open>imgs\<close> and \<open>basis\<close> not
  writeable, their content as before: an assignment to an entry of either is refused
  from then on, where before the hash an assignment to an entry of a writeable array
  succeeded. So the hash is not a pure observation: an object with a writeable array
  is changed by it. A second hash has the same outcome as the first and changes nothing
  more; the outcome is a value when the runtime hashes the two buffers.
\<close>

theorem SparseImageCode_hash_freezes_arrays:
  "model d = SparseImageCode s \<longrightarrow>
     (\<exists>s'. model (snd (py_hash bh d)) = SparseImageCode s'
        \<and> \<not> writeable (imgs s') \<and> \<not> writeable (basis s')
        \<and> arr (imgs s') = arr (imgs s) \<and> arr (basis s') = arr (basis s)
        \<and> ndarray_setitem (imgs s') i j v = Inl ValueError
        \<and> ndarray_setitem (basis s') i j v = Inl ValueError)
   \<and> (bh (arr (imgs s)) = Inr h_imgs \<and> bh (arr (basis s)) = Inr h_basis
        \<longrightarrow> (\<exists>h. fst (py_hash bh d) = Inr h))
   \<and> fst (py_hash bh (snd (py_hash bh d))) = fst (py_hash bh d)
   \<and> snd (py_hash bh (snd (py_hash bh d))) = snd (py_hash bh d)
   \<and> (writeable (imgs s) \<or> writeable (basis s) \<longrightarrow> snd (py_hash bh d) \<noteq> d)
   \<and> (writeable (imgs s) \<and> i < length (rows (arr (imgs s))) \<and> j < ncols (arr (imgs s))
        \<longrightarrow> ndarray_setitem (imgs s) i j v = Inr ((imgs s)\<lparr>arr := put (arr (imgs s)) i j v\<rparr>))"
proof (intro impI)
  assume m: "model d = SparseImageCode s"
  let ?s' = "s\<lparr>imgs := (imgs s)\<lparr>writeable := False\<rparr>, basis := (basis s)\<lparr>writeable := False\<rparr>\<rparr>"
  let ?d' = "d\<lparr>model := SparseImageCode ?s'\<rparr>"
  note h = py_hash_SparseImageCode[OF m, of bh]
  have m': "model ?d' = SparseImageCode ?s'"
    by simp
  note h' = py_hash_SparseImageCode[OF m', of bh]
  have 1: "\<exists>s'. model (snd (py_hash bh d)) = SparseImageCode s'
        \<and> \<not> writeable (imgs s') \<and> \<not> writeable (basis s')
        \<and> arr (imgs s') = arr (imgs s) \<and> arr (basis s') = arr (basis s)
        \<and> ndarray_setitem (imgs s') i j v = Inl ValueError
        \<and> ndarray_setitem (basis s') i j v = Inl ValueError"
    by (rule exI[of _ ?s']) (simp add: h ndarray_setitem_def)
  have 2: "bh (arr (imgs s)) = Inr h_imgs \<and> bh (arr (basis s)) = Inr h_basis
        \<longrightarrow> (\<exists>k. fst (py_hash bh d) = Inr k)"
    by (simp add: h SparseImageCode_hash_eq split: sum.splits)
  have 3: "fst (py_hash bh (snd (py_hash bh d))) = fst (py_hash bh d)"
    by (simp add: h h' SparseImageCode_hash_eq split: sum.splits)
  have 4: "snd (py_hash bh (snd (py_hash bh d))) = snd (py_hash bh d)"
    by (simp add: h h')
  have 5: "writeable (imgs s) \<or> writeable (basis s) \<longrightarrow> snd (py_hash bh d) \<noteq> d"
  proof
    assume w: "writeable (imgs s) \<or> writeable (basis s)"
    show "snd (py_hash bh d) \<noteq> d"
    proof
      assume "snd (py_hash bh d) = d"
      then have "model ?d' = model d"
        by (simp add: h)
      then have "?s' = s"
        by (simp add: m)
      then have "imgs ?s' = imgs s" and "basis ?s' = basis s"
        by simp_all
      then have "writeable (imgs ?s') = writeable (imgs s)"
          and "writeable (basis ?s') = writeable (basis s)"
        by simp_all
      with w show False
        by simp
    qed
  qed
  have 6: "writeable (imgs s) \<and> i < length (rows (arr (imgs s))) \<and> j < ncols (arr (imgs s))
        \<longrightarrow> ndarray_setitem (imgs s) i j v = Inr ((imgs s)\<lparr>arr := put (arr (imgs s)) i j v\<rparr>)"
    by (simp add: ndarray_setitem_def)
  from 1 2 3 4 5 6 show "(\<exists>s'. model (snd (py_hash bh d)) = SparseImageCode s'
        \<and> \<not> writeable (imgs s') \<and> \<not> writeable (basis s')
        \<and> arr (imgs s') = arr (imgs s) \<and> arr (basis s') = arr (basis s)
        \<and> ndarray_setitem (imgs s') i j v = Inl ValueError
        \<and> ndarray_setitem (basis s') i j v = Inl ValueError)
   \<and> (bh (arr (imgs s)) = Inr h_imgs \<and> bh (arr (basis s)) = Inr h_basis
        \<longrightarrow> (\<exists>h. fst (py_hash bh d) = Inr h))
   \<and> fst (py_hash bh (snd (py_hash bh d))) = fst (py_hash bh d)
   \<and> snd (py_hash bh (snd (py_hash bh d))) = snd (py_hash bh d)
   \<and> (writeable (imgs s) \<or> writeable (basis s) \<longrightarrow> snd (py_hash bh d) \<noteq> d)
   \<and> (writeable (imgs s) \<and> i < length (rows (arr (imgs s))) \<and> j < ncols (arr (imgs s))
        \<longrightarrow> ndarray_setitem (imgs s) i j v = Inr ((imgs s)\<lparr>arr := put (arr (imgs s)) i j v\<rparr>))"
    by (intro conjI)
qed

theorem SparseImageCode_hash_freezes_arrays_witness:
  "model (example_sparse False) = SparseImageCode (example_code False)
   \<and> writeable (imgs (example_code False))
   \<and> (0 :: nat) < length (rows (arr (imgs (example_code False))))
   \<and> (0 :: nat) < ncols (arr (imgs (example_code False)))
   \<and> ndarray_setitem (imgs (example_code False)) 0 0 9
       = Inr \<lparr>arr = \<lparr>ncols = 2, rows = [[9, 5], [1, 7]]\<rparr>, writeable = True\<rparr>
   \<and> snd (py_hash example_buffer_hash (example_sparse False)) \<noteq> example_sparse False
   \<and> (\<exists>s'. model (snd (py_hash example_buffer_hash (example_sparse False))) = SparseImageCode s'
          \<and> ndarray_setitem (imgs s') 0 0 9 = Inl ValueError
          \<and> ndarray_setitem (basis s') 0 0 9 = Inl ValueError)
   \<and> example_buffer_hash (arr (imgs (example_code False))) = Inr 15
   \<and> example_buffer_hash (arr (basis (example_code False))) = Inr 2
   \<and> (\<exists>h. fst (py_hash example_buffer_hash (example_sparse False)) = Inr h)
   \<and> fst (py_hash example_buffer_hash (snd (py_hash example_buffer_hash (example_sparse False))))
       = fst (py_hash example_buffer_hash (example_sparse False))"
proof -
  have m: "model (example_sparse False) = SparseImageCode (example_code False)"
    by (simp add: example_sparse_def)
  have w: "writeable (imgs (example_code False))
   \<and> (0 :: nat) < length (rows (arr (imgs (example_code False))))
   \<and> (0 :: nat) < ncols (arr (imgs (example_code False)))"
    by (simp add: example_code_def example_imgs_def)
  have b: "example_buffer_hash (arr (imgs (example_code False))) = Inr 15
   \<and> example_buffer_hash (arr (basis (example_code False))) = Inr 2"
    by (simp add: example_buffer_hash_def example_code_def example_imgs_def example_basis_def)
  note t = SparseImageCode_hash_freezes_arrays[where d = "example_sparse False"
      and s = "example_code False" and bh = example_buffer_hash and i = 0 and j = 0 and v = 9
      and h_imgs = 15 and h_basis = 2]
  have 1: "ndarray_setitem (imgs (example_code False)) 0 0 9
       = Inr \<lparr>arr = \<lparr>ncols = 2, rows = [[9, 5], [1, 7]]\<rparr>, writeable = True\<rparr>"
    using t m w by (simp add: example_code_def example_imgs_def put_def)
  have 2: "snd (py_hash example_buffer_hash (example_sparse False)) \<noteq> example_sparse False"
    using t m w by blast
  have 3: "\<exists>s'. model (snd (py_hash example_buffer_hash (example_sparse False))) = SparseImageCode s'
          \<and> ndarray_setitem (imgs s') 0 0 9 = Inl ValueError
          \<and> ndarray_setitem (basis s') 0 0 9 = Inl ValueError"
    using t m by blast
  have 4: "fst (py_hash example_buffer_hash (snd (py_hash example_buffer_hash (example_sparse False))))
       = fst (py_hash example_buffer_hash (example_sparse False))"
    using t m by blast
  have 5: "\<exists>h. fst (py_hash example_buffer_hash (example_sparse False)) = Inr h"
    using t m b by blast
  from m w b 1 2 3 4 5 show ?thesis
    by blast
qed

subsection \<open>Shapes of the results\<close>

lemma build_patches_shape:
  assumes "build_patches im n isz = Inr pt"
  shows "length pt = n" and "\<And>p. p \<in> set pt \<Longrightarrow> length p = 1"
  using assms
  by (auto simp: build_patches_def reshape3_def reshape2_def Let_def split: if_splits)

lemma in_set_map2D:
  assumes "z \<in> set (map2 f xs ys)"
  obtains x y where "x \<in> set xs" "y \<in> set ys" "z = f x y"
  using assms by (auto dest: set_zip_leftD set_zip_rightD)

lemma length_concat_replicate: "length (concat (replicate m p)) = m * length p"
  by (induction m) simp_all

lemma SparseImageCode_energy_length:
  assumes sh: "has_shape X (n_patches s * n_coeffs s) b"
    and pos: "0 < n_patches s * n_coeffs s"
    and nb: "b \<le> nb"
    and pl: "\<And>p. p \<in> set (patches s) \<Longrightarrow> length p = 1"
  shows "\<exists>v. SparseImageCode_build_energy_op nb s X = Inr v \<and> length v = b"
proof -
  have len: "length (rows X) = n_patches s * n_coeffs s" and nc: "ncols X = b"
    and wf: "list_all (\<lambda>row. length row = b) (rows X)"
    using sh by (simp_all add: has_shape_def)
  define shaped_state where
    "shaped_state = reshape4 (n_patches s) b (n_coeffs s) 1 (concat (rows X))"
  define shaped_basis where
    "shaped_basis = map (take b) (replicate (n_patches s) (replicate nb (rows (arr (basis s)))))"
  define reconstructions where
    "reconstructions = map (map (map (\<lambda>e. e ! 0))) (tf_batch_matmul shaped_basis shaped_state)"
  define residual where
    "residual = map2 (\<lambda>patch recs. map2 (map2 (-)) (concat (replicate b patch)) recs)
                  (patches s) reconstructions"
  define errs where
    "errs = map (map (\<lambda>px. sum_list (map (\<lambda>d. 0.5 * d\<^sup>2) px))) residual"
  define pen where
    "pen = (if cauchy s
            then map (\<lambda>t. of_rat (lmbda s) * t)
                   (tf_reduce_sum_0 b (map (map (\<lambda>x. ln (1 + x\<^sup>2))) (rows X)))
            else map (\<lambda>t. of_rat (lmbda s) * t)
                   (tf_reduce_sum_0 b (map (map abs) (rows X))))"
  have m: "n_patches s * n_coeffs s * b div (n_patches s * n_coeffs s) = b"
    using pos by simp
  have val: "SparseImageCode_build_energy_op nb s X = Inr (map2 (+) (tf_reduce_mean_0 b errs) pen)"
    using pos nb
    by (simp add: SparseImageCode_build_energy_op_def Let_def len nc m min_absorb1
        shaped_state_def shaped_basis_def reconstructions_def residual_def errs_def pen_def)
  have rec_len: "\<And>recs. recs \<in> set reconstructions \<Longrightarrow> length recs = b"
  proof -
    fix recs assume "recs \<in> set reconstructions"
    then obtain bm where bm: "bm \<in> set (tf_batch_matmul shaped_basis shaped_state)"
        and r: "recs = map (map (\<lambda>e. e ! 0)) bm"
      by (auto simp: reconstructions_def)
    from bm obtain A S where A: "A \<in> set shaped_basis" and S: "S \<in> set shaped_state"
        and e: "bm = map2 (matmul 1) A S"
      unfolding tf_batch_matmul_def by (rule in_set_map2D)
    from A have "length A = b"
      using nb by (auto simp: shaped_basis_def)
    moreover from S have "length S = b"
      by (auto simp: shaped_state_def reshape4_def reshape3_def)
    ultimately show "length recs = b"
      by (simp add: r e)
  qed
  have res_len: "\<And>row. row \<in> set residual \<Longrightarrow> length row = b"
  proof -
    fix row assume "row \<in> set residual"
    then obtain patch recs where "patch \<in> set (patches s)" "recs \<in> set reconstructions"
        and "row = map2 (map2 (-)) (concat (replicate b patch)) recs"
      unfolding residual_def by (rule in_set_map2D)
    then show "length row = b"
      using pl rec_len by (simp add: length_concat_replicate)
  qed
  have "list_all (\<lambda>row. length row = b) errs"
    using res_len by (simp add: errs_def list_all_iff)
  then have 1: "length (tf_reduce_mean_0 b errs) = b"
    by (simp add: tf_reduce_mean_0_def length_tf_reduce_sum_0)
  have "length pen = b"
    using wf by (simp add: pen_def length_tf_reduce_sum_0 list_all_iff)
  with 1 val show ?thesis
    by simp
qed

lemma Funnel_energy_length:
  assumes "has_shape X n b" and "0 < n"
  shows "\<exists>v. Funnel_build_energy_op sc X = Inr v \<and> length v = b"
proof -
  from assms obtain x_0 x_k where r: "rows X = x_0 # x_k"
    by (cases "rows X") (auto simp: has_shape_def)
  show ?thesis
    using Funnel_build_energy_op_formula[OF assms(1) r, of sc] by simp
qed

lemma TFGaussian_energy_length:
  assumes "has_shape X n b"
  shows "\<exists>v. TFGaussian_build_energy_op sg X = Inr v \<and> length v = b"
  using TFGaussian_build_energy_op_formula[OF assms, of sg] by simp

lemma tf_gradients_shape:
  assumes "ex X = Inr v" and "has_shape X n b"
  shows "\<exists>G. tf_gradients ex X = Inr G \<and> has_shape G n b"
  using assms by (simp add: tf_gradients_def has_shape_def list_all_iff)

lemma energy_op_length:
  assumes c: "construct dump args dev prof = Inr d"
    and nd: "\<not> no_coefficients d"
    and sh: "has_shape X (ndims d) b"
    and nb: "b \<le> nbatch d"
  shows "\<exists>v. energy_op d X = Inr v \<and> length v = b"
proof (cases args)
  case (FunnelArgs sc nbt n)
  with c have f: "model d = Funnel sc" "ndims d = nat n" "1 \<le> n"
    using Funnel_init_fields by (simp_all add: construct_def)
  then have "0 < ndims d"
    by simp
  from Funnel_energy_length[OF sh this] f show ?thesis
    by (simp add: energy_op_def)
next
  case (TFGaussianArgs n nbt sg)
  with c have "model d = TFGaussian sg"
    using TFGaussian_init_fields by (simp add: construct_def)
  with TFGaussian_energy_length[OF sh] show ?thesis
    by (simp add: energy_op_def)
next
  case (SparseImageCodeArgs np nbt cau nbs)
  with c have "SparseImageCode_init dump np nbt cau nbs dev prof = Inr d"
    by (simp add: construct_def)
  from SparseImageCode_init_fields[OF this] obtain im ba pt where
    bp: "build_patches (arr im) np (length (rows (arr ba))) = Inr pt"
    and m: "model d = SparseImageCode
            \<lparr>lmbda = 1 / 100, imgs = im, basis = ba, img_size = length (rows (arr ba)),
             n_coeffs = ncols (arr ba), n_patches = np, cauchy = cau, patches = pt\<rparr>"
    and n: "ndims d = np * ncols (arr ba)"
    by blast
  let ?s = "\<lparr>lmbda = 1 / 100, imgs = im, basis = ba, img_size = length (rows (arr ba)),
             n_coeffs = ncols (arr ba), n_patches = np, cauchy = cau, patches = pt\<rparr>"
  have sh': "has_shape X (n_patches ?s * n_coeffs ?s) b"
    using sh n by simp
  have pos: "0 < n_patches ?s * n_coeffs ?s"
    using nd m n by (simp add: no_coefficients_def)
  have pl: "\<And>p. p \<in> set (patches ?s) \<Longrightarrow> length p = 1"
    using build_patches_shape(2)[OF bp] by simp
  from SparseImageCode_energy_length[OF sh' pos nb pl] m show ?thesis
    by (simp add: energy_op_def)
qed

text \<open>
  C2. For an object built by any of the three constructors and a batch \<open>X\<close> of shape
  \<open>[ndims, b]\<close> with \<open>1 \<le> b \<le> nbatch\<close>, the evaluation of the energy returns an
  array of shape \<open>[b]\<close> and the evaluation of the gradient an array of shape
  \<open>[ndims, b]\<close>. (A sparse image code with \<open>ndims = 0\<close> is left out; when tracing is
  on, the evaluation returns provided the trace can be written.)
\<close>

theorem evaluation_shapes:
  "construct dump args dev prof = Inr d \<and> \<not> no_coefficients d \<and> has_shape X (ndims d) b
     \<and> 1 \<le> b \<and> b \<le> nbatch d \<and> can_log d w
   \<longrightarrow> (\<exists>v w'. E_val d w X = Inr (v, w') \<and> length v = b)
     \<and> (\<exists>G w'. dEdX_val d w X = Inr (G, w') \<and> has_shape G (ndims d) b)"
proof (intro impI)
  assume a: "construct dump args dev prof = Inr d \<and> \<not> no_coefficients d
     \<and> has_shape X (ndims d) b \<and> 1 \<le> b \<and> b \<le> nbatch d \<and> can_log d w"
  then have sh: "has_shape X (ndims d) b" and l: "can_log d w"
    by simp_all
  then have len: "length (rows X) = ndims d"
    by (simp add: has_shape_def)
  from a obtain v where v: "energy_op d X = Inr v" "length v = b"
    using energy_op_length by blast
  from tf_gradients_shape[of "energy_op d" X v "ndims d" b, OF v(1) sh] obtain G where G: "grad_op d X = Inr G"
      "has_shape G (ndims d) b"
    by (auto simp: grad_op_def)
  from E_val_value[OF len v(1) l] v(2)
  have 1: "\<exists>v w'. E_val d w X = Inr (v, w') \<and> length v = b"
    by blast
  from dEdX_val_value[OF len G(1) l] G(2)
  have 2: "\<exists>G w'. dEdX_val d w X = Inr (G, w') \<and> has_shape G (ndims d) b"
    by blast
  from 1 2 show "(\<exists>v w'. E_val d w X = Inr (v, w') \<and> length v = b)
     \<and> (\<exists>G w'. dEdX_val d w X = Inr (G, w') \<and> has_shape G (ndims d) b)"
    by (rule conjI)
qed

theorem evaluation_shapes_witness:
  "construct example_dump (SparseImageCodeArgs 1 2 False 1024) (DeviceStr ''/cpu:0'') False
     = Inr (example_sparse False)
   \<and> \<not> no_coefficients (example_sparse False)
   \<and> has_shape \<lparr>ncols = 2, rows = [[0, 1], [0, 1]]\<rparr> (ndims (example_sparse False)) 2
   \<and> (1 :: nat) \<le> 2 \<and> 2 \<le> nbatch (example_sparse False)
   \<and> can_log (example_sparse False) example_world
   \<and> (\<exists>v w'. E_val (example_sparse False) example_world \<lparr>ncols = 2, rows = [[0, 1], [0, 1]]\<rparr>
                 = Inr (v, w') \<and> length v = 2)
   \<and> (\<exists>G w'. dEdX_val (example_sparse False) example_world \<lparr>ncols = 2, rows = [[0, 1], [0, 1]]\<rparr>
                 = Inr (G, w') \<and> has_shape G (ndims (example_sparse False)) 2)"
proof -
  have c: "construct example_dump (SparseImageCodeArgs 1 2 False 1024) (DeviceStr ''/cpu:0'')
              False = Inr (example_sparse False)"
    by (simp add: construct_def SparseImageCode_init_def TensorflowDistribution_init_def
        resolve_device_def example_sparse_def example_dump_def example_code_def example_imgs_def
        example_basis_def build_patches_def select_patches_def reshape3_def reshape2_def
        upt_conv_Cons)
  have h: "\<not> no_coefficients (example_sparse False)
   \<and> has_shape \<lparr>ncols = 2, rows = [[0, 1], [0, 1]]\<rparr> (ndims (example_sparse False)) 2
   \<and> (1 :: nat) \<le> 2 \<and> 2 \<le> nbatch (example_sparse False)
   \<and> can_log (example_sparse False) example_world"
    by (simp add: no_coefficients_def has_shape_def can_log_def example_sparse_def)
  from evaluation_shapes[where dump = example_dump and args = "SparseImageCodeArgs 1 2 False 1024"
      and dev = "DeviceStr ''/cpu:0''" and prof = False and d = "example_sparse False"
      and X = "\<lparr>ncols = 2, rows = [[0, 1], [0, 1]]\<rparr>" and b = 2 and w = example_world] c h
  have "(\<exists>v w'. E_val (example_sparse False) example_world \<lparr>ncols = 2, rows = [[0, 1], [0, 1]]\<rparr>
                 = Inr (v, w') \<and> length v = 2)
   \<and> (\<exists>G w'. dEdX_val (example_sparse False) example_world \<lparr>ncols = 2, rows = [[0, 1], [0, 1]]\<rparr>
                 = Inr (G, w') \<and> has_shape G (ndims (example_sparse False)) 2)"
    by blast
  with c h show ?thesis
    by blast
qed


subsection \<open>The sparse image code at a zero column\<close>

lemma replicate_numeral: "replicate (numeral k) x = x # replicate (pred_numeral k) x"
  by (simp add: numeral_eq_Suc)

text \<open>
  C4. The specification states one half of the mean over the patches of the sum of the
  squared pixels as the energy of an all-zero column under the Laplace penalty. For
  the one patch \<open>[2, 1]\<close> and the identity basis that is \<open>5 / 2\<close>. In the batch
  \<open>[[0, 1], [0, 1]]\<close> the first column is all zero, and its energy is \<open>2\<close>: the
  reshape of the placeholder of shape \<open>[ndims, b]\<close> to \<open>[n_patches, b, n_coeffs, 1]\<close>
  reads the elements in row-major order, so the coefficients it hands to the first
  batch entry are the first row \<open>[0, 1]\<close> of the batch, not its first column.
\<close>

theorem SparseImageCode_zero_column_in_batch:
  "construct example_dump (SparseImageCodeArgs 1 2 False 1024) (DeviceStr ''/cpu:0'') False
     = Inr (example_sparse False)
   \<and> model (example_sparse False) = SparseImageCode (example_code False)
   \<and> has_shape \<lparr>ncols = 2, rows = [[0, 1], [0, 1]]\<rparr> (ndims (example_sparse False)) 2
   \<and> map (\<lambda>row. row ! 0) (rows \<lparr>ncols = 2, rows = [[0, 1], [0, 1]]\<rparr>) = [0, 0]
   \<and> E_val (example_sparse False) example_world \<lparr>ncols = 2, rows = [[0, 1], [0, 1]]\<rparr>
       = Inr ([2, 101 / 50], example_world)
   \<and> zero_column_energy_stated (example_code False) = 5 / 2"
proof (intro conjI)
  show "construct example_dump (SparseImageCodeArgs 1 2 False 1024) (DeviceStr ''/cpu:0'') False
     = Inr (example_sparse False)"
    by (simp add: construct_def SparseImageCode_init_def TensorflowDistribution_init_def
        resolve_device_def example_sparse_def example_dump_def example_code_def example_imgs_def
        example_basis_def build_patches_def select_patches_def reshape3_def reshape2_def
        upt_conv_Cons)
  show "model (example_sparse False) = SparseImageCode (example_code False)"
    by (simp add: example_sparse_def)
  show "has_shape \<lparr>ncols = 2, rows = [[0, 1], [0, 1]]\<rparr> (ndims (example_sparse False)) 2"
    by (simp add: has_shape_def example_sparse_def)
  show "map (\<lambda>row. row ! 0) (rows \<lparr>ncols = 2, rows = [[0, 1], [0, 1]]\<rparr>) = [0, 0]"
    by simp
  show "E_val (example_sparse False) example_world \<lparr>ncols = 2, rows = [[0, 1], [0, 1]]\<rparr>
       = Inr ([2, 101 / 50], example_world)"
    by (simp add: E_val_def sess_run_def energy_op_def example_sparse_def example_code_def
        example_basis_def SparseImageCode_build_energy_op_def reshape4_def reshape3_def
        reshape2_def tf_batch_matmul_def matmul_def tf_reduce_mean_0_def tf_reduce_sum_0_def
        Let_def replicate_numeral upt_conv_Cons of_rat_divide)
  show "zero_column_energy_stated (example_code False) = 5 / 2"
    by (simp add: zero_column_energy_stated_def example_code_def example_imgs_def
        select_patches_def upt_conv_Cons)
qed


subsection \<open>The sparse image code on a zero batch\<close>

lemma sum_list_zero: "(\<And>x. x \<in> set xs \<Longrightarrow> f x = (0::real)) \<Longrightarrow> sum_list (map f xs) = 0"
  by (induction xs) simp_all

lemma map_upt_const: "(\<And>i. i < n \<Longrightarrow> f i = c) \<Longrightarrow> map f [0..<n] = replicate n c"
  by (rule nth_equalityI) simp_all

lemma index_bound:
  fixes i j c :: nat
  assumes "i < P" "j < b" "c < C"
  shows "i * (b * C) + j * C + c < P * (b * C)"
proof -
  have "j * C + c < b * C"
  proof -
    have "j * C + c < j * C + C" using assms(3) by simp
    also have "\<dots> = (j + 1) * C" by simp
    also have "\<dots> \<le> b * C" using assms(2) by (intro mult_le_mono1) simp
    finally show ?thesis .
  qed
  then have "i * (b * C) + j * C + c < i * (b * C) + b * C"
    by simp
  also have "\<dots> = (i + 1) * (b * C)" by simp
  also have "\<dots> \<le> P * (b * C)" using assms(1) by (intro mult_le_mono1) simp
  finally show ?thesis .
qed

lemma reshape4_zeros:
  "reshape4 P b C 1 (replicate (P * (b * C)) 0) = replicate P (replicate b (replicate C [0]))"
proof -
  have inner: "\<And>i j c. i < P \<Longrightarrow> j < b \<Longrightarrow> c < C \<Longrightarrow>
      take 1 (drop (c * 1) (drop (j * (C * 1)) (drop (i * (b * C * 1)) (replicate (P * (b * C)) (0::real)))))
        = [0]"
  proof -
    fix i j c assume a: "i < P" "j < b" "c < C"
    from index_bound[OF a] obtain k where
      k: "P * (b * C) - (i * (b * C) + j * C + c) = Suc k"
      by (cases "P * (b * C) - (i * (b * C) + j * C + c)") simp_all
    show "take 1 (drop (c * 1) (drop (j * (C * 1)) (drop (i * (b * C * 1)) (replicate (P * (b * C)) (0::real)))))
        = [0]"
      by (simp add: k)
  qed
  show ?thesis
    unfolding reshape4_def reshape3_def reshape2_def
    by (intro map_upt_const inner) 
qed

lemma concat_replicate_zeros:
  "concat (replicate n (replicate b (0::real))) = replicate (n * b) 0"
  by (induction n) (simp_all add: replicate_add)

lemma matmul_zero_vector:
  "matmul 1 B (replicate C [0]) = map (\<lambda>row. [0]) B"
proof -
  have "\<And>row. sum_list (map2 (\<lambda>a e. a * e ! 0) row (replicate C [0::real])) = 0"
  proof -
    fix row :: "real list"
    have "sum_list (map (\<lambda>(a, e). a * e ! 0) (zip row (replicate C [0::real]))) = 0"
      by (rule sum_list_zero) (auto dest: set_zip_rightD)
    then show "sum_list (map2 (\<lambda>a e. a * e ! 0) row (replicate C [0::real])) = 0"
      by simp
  qed
  then show ?thesis
    by (simp add: matmul_def)
qed

lemma map2_minus_zeros: "length xs = n \<Longrightarrow> map2 (-) xs (replicate n (0::real)) = xs"
  by (rule nth_equalityI) simp_all

lemma map2_replicate:
  "map2 f (replicate b x) (replicate b y) = replicate b (f x y)"
  by simp

lemma chunk_length:
  assumes "length flat = P * I" and "i < P"
  shows "length (take I (drop (i * I) flat)) = I"
proof -
  have "(i + 1) * I \<le> P * I"
    using assms(2) by (intro mult_le_mono1) simp
  then show ?thesis
    using assms(1) by simp
qed

lemma chunks_concat:
  "length flat = P * I \<Longrightarrow> concat (map (\<lambda>i. take I (drop (i * I) flat)) [0..<P]) = flat"
proof (induction P arbitrary: flat)
  case 0
  then show ?case by simp
next
  case (Suc P)
  let ?f = "take (P * I) flat"
  have l: "length ?f = P * I"
    using Suc.prems by simp
  have same: "\<And>i. i < P \<Longrightarrow> take I (drop (i * I) ?f) = take I (drop (i * I) flat)"
  proof -
    fix i assume i: "i < P"
    have "(i + 1) * I \<le> P * I"
      using i by (intro mult_le_mono1) simp
    then have "I \<le> P * I - i * I"
      by simp
    then show "take I (drop (i * I) ?f) = take I (drop (i * I) flat)"
      by (simp add: drop_take min_absorb1)
  qed
  have "concat (map (\<lambda>i. take I (drop (i * I) flat)) [0..<P])
          = concat (map (\<lambda>i. take I (drop (i * I) ?f)) [0..<P])"
    using same by (intro arg_cong[where f = concat] map_cong) simp_all
  also have "\<dots> = ?f"
    by (rule Suc.IH[OF l])
  finally have first: "concat (map (\<lambda>i. take I (drop (i * I) flat)) [0..<P]) = ?f" .
  have last: "take I (drop (P * I) flat) = drop (P * I) flat"
    using Suc.prems by simp
  show ?case
    by (simp add: first last)
qed

lemma sum_list_map_concat:
  "sum_list (map f (concat xss)) = sum_list (map (\<lambda>xs. sum_list (map f xs)) xss)"
  for f :: "'a \<Rightarrow> real"
  by (induction xss) simp_all

lemma tf_reduce_sum_0_constant_rows:
  "tf_reduce_sum_0 b (map (\<lambda>i. replicate b (e i)) is) = replicate b (sum_list (map e is))"
proof -
  have wf: "list_all (\<lambda>row. length row = b) (map (\<lambda>i. replicate b (e i)) is)"
    by (simp add: list_all_iff)
  have "\<And>j. j < b \<Longrightarrow>
      sum_list (map (\<lambda>row. row ! j) (map (\<lambda>i. replicate b (e i)) is)) = sum_list (map e is)"
    by (simp add: comp_def)
  then show ?thesis
    unfolding tf_reduce_sum_0_nth[OF wf] by (intro map_upt_const) simp
qed

lemma tf_reduce_sum_0_zeros:
  "tf_reduce_sum_0 b (replicate n (replicate b 0)) = replicate b 0"
proof -
  have "tf_reduce_sum_0 b (map (\<lambda>i. replicate b ((\<lambda>i. 0) i)) [0..<n]) 
          = replicate b (sum_list (map (\<lambda>i. 0) [0..<n]))"
    by (rule tf_reduce_sum_0_constant_rows)
  then show ?thesis
    by (simp add: map_replicate_const sum_list_replicate)
qed

lemma SparseImageCode_zero_batch_op:
  assumes pos: "0 < n_patches s * n_coeffs s"
    and nb: "b \<le> nb"
    and lap: "\<not> cauchy s"
    and pt: "patches s = reshape3 (n_patches s) 1 (length (rows (arr (basis s)))) flat"
    and fl: "length flat = n_patches s * length (rows (arr (basis s)))"
  shows "SparseImageCode_build_energy_op nb s
           \<lparr>ncols = b, rows = replicate (n_patches s * n_coeffs s) (replicate b 0)\<rparr>
         = Inr (replicate b (sum_list (map (\<lambda>x. 0.5 * x\<^sup>2) flat) / real (n_patches s)))"
proof -
  let ?P = "n_patches s" and ?C = "n_coeffs s" and ?I = "length (rows (arr (basis s)))"
  let ?B = "rows (arr (basis s))"
  let ?chunk = "\<lambda>i. take ?I (drop (i * ?I) flat)"
  let ?e = "\<lambda>i. sum_list (map (\<lambda>d. 0.5 * d\<^sup>2) (?chunk i))"
  define shaped_state where
    "shaped_state = reshape4 ?P b ?C 1 (concat (replicate (?P * ?C) (replicate b (0::real))))"
  define shaped_basis where
    "shaped_basis = map (take b) (replicate ?P (replicate nb ?B))"
  define reconstructions where
    "reconstructions = map (map (map (\<lambda>e. e ! 0))) (tf_batch_matmul shaped_basis shaped_state)"
  define residual where
    "residual = map2 (\<lambda>patch recs. map2 (map2 (-)) (concat (replicate b patch)) recs)
                  (patches s) reconstructions"
  define errs where
    "errs = map (map (\<lambda>px. sum_list (map (\<lambda>d. 0.5 * d\<^sup>2) px))) residual"
  define pen where
    "pen = map (\<lambda>t. of_rat (lmbda s) * t)
             (tf_reduce_sum_0 b (map (map abs) (replicate (?P * ?C) (replicate b (0::real)))))"
  have m: "?P * ?C * b div (?P * ?C) = b"
    using pos by simp
  have val: "SparseImageCode_build_energy_op nb s
           \<lparr>ncols = b, rows = replicate (?P * ?C) (replicate b 0)\<rparr>
         = Inr (map2 (+) (tf_reduce_mean_0 b errs) pen)"
    using pos nb lap
    by (simp add: SparseImageCode_build_energy_op_def Let_def m min_absorb1
        shaped_state_def shaped_basis_def reconstructions_def residual_def errs_def pen_def)
  have flat0: "concat (replicate (?P * ?C) (replicate b (0::real))) = replicate (?P * (b * ?C)) 0"
    by (simp add: concat_replicate_zeros mult.commute mult.left_commute)
  have state: "shaped_state = replicate ?P (replicate b (replicate ?C [0]))"
    unfolding shaped_state_def flat0 by (rule reshape4_zeros)
  have basis: "shaped_basis = replicate ?P (replicate b ?B)"
    unfolding shaped_basis_def using nb by (simp add: min_absorb1)
  have bm: "tf_batch_matmul (replicate ?P (replicate b ?B))
              (replicate ?P (replicate b (replicate ?C [0])))
            = replicate ?P (replicate b (map (\<lambda>row. [0]) ?B))"
    by (simp add: tf_batch_matmul_def matmul_zero_vector del: One_nat_def)
  have recs: "reconstructions = replicate ?P (replicate b (replicate ?I 0))"
    unfolding reconstructions_def state basis bm
    by (simp add: comp_def map_replicate_const)
  have patches: "patches s = map (\<lambda>i. [?chunk i]) [0..<?P]"
    by (simp add: pt reshape3_def reshape2_def)
  have res: "residual = map (\<lambda>i. replicate b (?chunk i)) [0..<?P]"
    unfolding residual_def recs
  proof (rule nth_equalityI)
    show "length (map2 (\<lambda>patch recs. map2 (map2 (-)) (concat (replicate b patch)) recs)
        (patches s) (replicate ?P (replicate b (replicate ?I 0))))
      = length (map (\<lambda>i. replicate b (?chunk i)) [0..<?P])"
      by (simp add: patches)
  next
    fix i assume "i < length (map2 (\<lambda>patch recs. map2 (map2 (-)) (concat (replicate b patch)) recs)
        (patches s) (replicate ?P (replicate b (replicate ?I 0))))"
    then have i: "i < ?P"
      by (simp add: patches)
    have l: "length (?chunk i) = ?I"
      by (rule chunk_length[OF fl i])
    have "map2 (map2 (-)) (replicate b (?chunk i)) (replicate b (replicate ?I 0))
            = replicate b (?chunk i)"
      by (simp only: map2_replicate map2_minus_zeros[OF l])
    moreover have "concat (replicate b [?chunk i]) = replicate b (?chunk i)"
      by (induction b) simp_all
    ultimately show "map2 (\<lambda>patch recs. map2 (map2 (-)) (concat (replicate b patch)) recs)
        (patches s) (replicate ?P (replicate b (replicate ?I 0))) ! i
      = map (\<lambda>i. replicate b (?chunk i)) [0..<?P] ! i"
      using i by (simp add: patches)
  qed
  have errs: "errs = map (\<lambda>i. replicate b (?e i)) [0..<?P]"
    unfolding errs_def res by simp
  have total: "sum_list (map ?e [0..<?P]) = sum_list (map (\<lambda>x. 0.5 * x\<^sup>2) flat)"
  proof -
    have "sum_list (map (\<lambda>x. 0.5 * x\<^sup>2) (concat (map ?chunk [0..<?P])))
            = sum_list (map ?e [0..<?P])"
      by (simp add: sum_list_map_concat comp_def)
    then show ?thesis
      by (simp add: chunks_concat[OF fl])
  qed
  have mean: "tf_reduce_mean_0 b errs
                = replicate b (sum_list (map (\<lambda>x. 0.5 * x\<^sup>2) flat) / real ?P)"
    unfolding errs tf_reduce_mean_0_def tf_reduce_sum_0_constant_rows total
    by (simp only: length_map length_upt map_replicate minus_nat.diff_0)
  have pen: "pen = replicate b 0"
    unfolding pen_def by (simp add: tf_reduce_sum_0_zeros)
  show ?thesis
    unfolding val mean pen by simp
qed

lemma half_squares:
  "sum_list (map (\<lambda>x. 0.5 * x\<^sup>2) xs) = (1 / 2) * sum_list (map (\<lambda>x. x\<^sup>2) xs)"
  for xs :: "real list"
  by (induction xs) (simp_all add: algebra_simps)

lemma half_squares_concat:
  "sum_list (map (\<lambda>x. 0.5 * x\<^sup>2) (concat xss))
     = (1 / 2) * sum_list (map (\<lambda>xs. sum_list (map (\<lambda>x. x\<^sup>2) xs)) xss)"
  for xss :: "real list list"
proof (induction xss)
  case Nil
  show ?case by simp
next
  case (Cons a xss)
  have "sum_list (map (\<lambda>x. 0.5 * x\<^sup>2) (concat (a # xss)))
          = sum_list (map (\<lambda>x. 0.5 * x\<^sup>2) a) + sum_list (map (\<lambda>x. 0.5 * x\<^sup>2) (concat xss))"
    by simp
  also have "\<dots> = (1 / 2) * sum_list (map (\<lambda>x. x\<^sup>2) a)
                   + (1 / 2) * sum_list (map (\<lambda>xs. sum_list (map (\<lambda>x. x\<^sup>2) xs)) xss)"
    by (subst Cons.IH, subst half_squares) (rule refl)
  also have "\<dots> = (1 / 2) * sum_list (map (\<lambda>xs. sum_list (map (\<lambda>x. x\<^sup>2) xs)) (a # xss))"
    by (simp add: algebra_simps)
  finally show ?case .
qed

text \<open>
  Under the Laplace penalty, on a batch that is zero everywhere, the energy of every
  column is one half of the mean over the patches of the sum of the squared pixels.
\<close>

theorem SparseImageCode_zero_batch_energy:
  assumes c: "construct dump (SparseImageCodeArgs np nbt False nbs) dev prof = Inr d"
    and m: "model d = SparseImageCode s"
    and nd: "\<not> no_coefficients d" and nb: "b \<le> nbatch d" and l: "can_log d w"
  shows "\<exists>w'. E_val d w \<lparr>ncols = b, rows = replicate (ndims d) (replicate b 0)\<rparr>
           = Inr (replicate b (zero_column_energy_stated s), w')"
proof -
  from c have "SparseImageCode_init dump np nbt False nbs dev prof = Inr d"
    by (simp add: construct_def)
  from SparseImageCode_init_fields[OF this] m obtain im ba pt where
    bp: "build_patches (arr im) np (length (rows (arr ba))) = Inr pt"
    and s: "s = \<lparr>lmbda = 1 / 100, imgs = im, basis = ba, img_size = length (rows (arr ba)),
             n_coeffs = ncols (arr ba), n_patches = np, cauchy = False, patches = pt\<rparr>"
    and n: "ndims d = np * ncols (arr ba)"
    by auto
  let ?flat = "concat (select_patches (arr im) np)"
  from bp have fl: "length ?flat = np * length (rows (arr ba))"
    and pt: "pt = reshape3 np 1 (length (rows (arr ba))) ?flat"
    by (auto simp: build_patches_def Let_def split: if_splits)
  have pos: "0 < n_patches s * n_coeffs s"
    using nd m n by (simp add: no_coefficients_def s)
  have "SparseImageCode_build_energy_op (nbatch d) s
           \<lparr>ncols = b, rows = replicate (n_patches s * n_coeffs s) (replicate b 0)\<rparr>
         = Inr (replicate b (sum_list (map (\<lambda>x. 0.5 * x\<^sup>2) ?flat) / real (n_patches s)))"
    by (rule SparseImageCode_zero_batch_op[OF pos nb]) (simp_all add: s pt fl)
  moreover have "sum_list (map (\<lambda>x. 0.5 * x\<^sup>2) ?flat) / real (n_patches s)
                   = zero_column_energy_stated s"
    unfolding half_squares_concat by (simp add: zero_column_energy_stated_def s)
  moreover have "n_patches s * n_coeffs s = ndims d"
    by (simp add: s n)
  ultimately have "energy_op d \<lparr>ncols = b, rows = replicate (ndims d) (replicate b 0)\<rparr>
         = Inr (replicate b (zero_column_energy_stated s))"
    by (simp add: energy_op_def m)
  moreover have "length (rows \<lparr>ncols = b, rows = replicate (ndims d) (replicate b (0::real))\<rparr>)
                   = ndims d"
    by simp
  ultimately show ?thesis
    using l E_val_value by blast
qed

theorem SparseImageCode_zero_batch_energy_witness:
  "construct example_dump (SparseImageCodeArgs 1 2 False 1024) (DeviceStr ''/cpu:0'') False
     = Inr (example_sparse False)
   \<and> model (example_sparse False) = SparseImageCode (example_code False)
   \<and> \<not> no_coefficients (example_sparse False)
   \<and> (2 :: nat) \<le> nbatch (example_sparse False)
   \<and> can_log (example_sparse False) example_world
   \<and> (\<exists>w'. E_val (example_sparse False) example_world \<lparr>ncols = 2, rows = [[0, 0], [0, 0]]\<rparr>
              = Inr ([5 / 2, 5 / 2], w'))"
proof -
  have c: "construct example_dump (SparseImageCodeArgs 1 2 False 1024) (DeviceStr ''/cpu:0'')
              False = Inr (example_sparse False)"
    by (simp add: construct_def SparseImageCode_init_def TensorflowDistribution_init_def
        resolve_device_def example_sparse_def example_dump_def example_code_def example_imgs_def
        example_basis_def build_patches_def select_patches_def reshape3_def reshape2_def
        upt_conv_Cons)
  have m: "model (example_sparse False) = SparseImageCode (example_code False)"
    by (simp add: example_sparse_def)
  have nd: "\<not> no_coefficients (example_sparse False)"
    by (simp add: no_coefficients_def example_sparse_def)
  have nb: "(2 :: nat) \<le> nbatch (example_sparse False)"
    by (simp add: example_sparse_def)
  have l: "can_log (example_sparse False) example_world"
    by (simp add: can_log_def example_sparse_def)
  have z: "zero_column_energy_stated (example_code False) = 5 / 2"
    by (simp add: zero_column_energy_stated_def example_code_def example_imgs_def
        select_patches_def upt_conv_Cons)
  have n: "ndims (example_sparse False) = 2"
    by (simp add: example_sparse_def)
  have "\<exists>w'. E_val (example_sparse False) example_world \<lparr>ncols = 2, rows = [[0, 0], [0, 0]]\<rparr>
              = Inr ([5 / 2, 5 / 2], w')"
    using SparseImageCode_zero_batch_energy[OF c m nd nb l]
    by (simp add: z n replicate_numeral)
  with c m nd nb l show ?thesis
    by blast
qed

end
